theory Spec2Isabelle
  imports Main
begin

chapter \<open>The program\<close>

section \<open>Dialects\<close>

text \<open>
  \<^verbatim>\<open>ConnectorType\<close> of \<^verbatim>\<open>connectors/interface.ts\<close>: the closed union of the six
  dialect names. Strings are modelled as \<^typ>\<open>string\<close>: a character stands for a code
  unit below 256, which has the same meaning in the host language's strings. Code units
  from 256 on are outside of the model.
\<close>

datatype ConnectorType = Postgres | Mysql | Mariadb | Sqlite | Sqlserver | Tdengine

section \<open>Character classes and string primitives of the host language\<close>

text \<open>
  \<^verbatim>\<open>\s\<close> and \<^verbatim>\<open>String.prototype.trim\<close> on code units below 256: tab, line feed,
  vertical tab, form feed, carriage return, space and the no-break space \<open>0xA0\<close>.
  \<^verbatim>\<open>\d\<close> is \<^verbatim>\<open>[0-9]\<close>.
\<close>

definition isSpace :: "char \<Rightarrow> bool" where
  "isSpace c =
     (c \<in> set [CHR 0x09, CHR 0x0A, CHR 0x0B, CHR 0x0C, CHR 0x0D, CHR 0x20, CHR 0xA0])"

definition isDigit :: "char \<Rightarrow> bool" where
  "isDigit c = (c \<in> set ''0123456789'')"

text \<open>
  \<^verbatim>\<open>String.prototype.toLowerCase\<close> on code units below 256: the letters \<^verbatim>\<open>A\<close> to \<^verbatim>\<open>Z\<close>, and
  the capital letters \<open>0xC0\<close> to \<open>0xDE\<close> (without the multiplication sign \<open>0xD7\<close>),
  each of which has its small letter 32 places further on.
\<close>

definition upperLetters :: "char list" where
  "upperLetters =
     ''ABCDEFGHIJKLMNOPQRSTUVWXYZ''
     @ [CHR 0xC0, CHR 0xC1, CHR 0xC2, CHR 0xC3, CHR 0xC4, CHR 0xC5, CHR 0xC6, CHR 0xC7,
        CHR 0xC8, CHR 0xC9, CHR 0xCA, CHR 0xCB, CHR 0xCC, CHR 0xCD, CHR 0xCE, CHR 0xCF,
        CHR 0xD0, CHR 0xD1, CHR 0xD2, CHR 0xD3, CHR 0xD4, CHR 0xD5, CHR 0xD6,
        CHR 0xD8, CHR 0xD9, CHR 0xDA, CHR 0xDB, CHR 0xDC, CHR 0xDD, CHR 0xDE]"

definition lowerLetters :: "char list" where
  "lowerLetters =
     ''abcdefghijklmnopqrstuvwxyz''
     @ [CHR 0xE0, CHR 0xE1, CHR 0xE2, CHR 0xE3, CHR 0xE4, CHR 0xE5, CHR 0xE6, CHR 0xE7,
        CHR 0xE8, CHR 0xE9, CHR 0xEA, CHR 0xEB, CHR 0xEC, CHR 0xED, CHR 0xEE, CHR 0xEF,
        CHR 0xF0, CHR 0xF1, CHR 0xF2, CHR 0xF3, CHR 0xF4, CHR 0xF5, CHR 0xF6,
        CHR 0xF8, CHR 0xF9, CHR 0xFA, CHR 0xFB, CHR 0xFC, CHR 0xFD, CHR 0xFE]"

definition toLower :: "char \<Rightarrow> char" where
  "toLower c =
     (case map_of (zip upperLetters lowerLetters) c of
        Some l \<Rightarrow> l
      | None \<Rightarrow> c)"

definition toLowerCase :: "string \<Rightarrow> string" where
  "toLowerCase s = map toLower s"

definition trim :: "string \<Rightarrow> string" where
  "trim s = rev (dropWhile isSpace (rev (dropWhile isSpace s)))"

text \<open>\<^verbatim>\<open>s.split(';')\<close>: cut at every occurrence of the separator, keeping empty pieces.\<close>

fun splitOn :: "char \<Rightarrow> string \<Rightarrow> string list" where
  "splitOn sep [] = [[]]"
| "splitOn sep (c # cs) =
     (if c = sep then [] # splitOn sep cs
      else (case splitOn sep cs of
              [] \<Rightarrow> [[c]]
            | p # ps \<Rightarrow> (c # p) # ps))"

fun joinWith :: "string \<Rightarrow> string list \<Rightarrow> string" where
  "joinWith sep [] = []"
| "joinWith sep [x] = x"
| "joinWith sep (x # y # ys) = x @ sep @ joinWith sep (y # ys)"

section \<open>Identifier quoter (\<^verbatim>\<open>utils/identifier-quoter.ts\<close>)\<close>

datatype quote_error = ControlCharacters string | EmptyIdentifier

text \<open>The character class \<^verbatim>\<open>[\0\x08\x09\x1a\n\r]\<close> tested by \<^verbatim>\<open>quoteIdentifier\<close>.\<close>

definition controlChars :: "char list" where
  "controlChars = [CHR 0x00, CHR 0x08, CHR 0x09, CHR 0x1A, CHR 0x0A, CHR 0x0D]"

text \<open>\<^verbatim>\<open>s.replace(/c/g, "cc")\<close>: every occurrence of the character is doubled.\<close>

fun doubleChar :: "char \<Rightarrow> string \<Rightarrow> string" where
  "doubleChar q [] = []"
| "doubleChar q (c # cs) = (if c = q then q # q # doubleChar q cs else c # doubleChar q cs)"

text \<open>
  \<^verbatim>\<open>quoteIdentifier\<close>. The \<^verbatim>\<open>default\<close> branch of its \<^verbatim>\<open>switch\<close> is for values outside
  \<^verbatim>\<open>ConnectorType\<close>, which the type excludes.
\<close>

fun quoteIdentifier :: "string \<Rightarrow> ConnectorType \<Rightarrow> quote_error + string" where
  "quoteIdentifier identifier dbType =
     (if \<exists>c \<in> set identifier. c \<in> set controlChars then Inl (ControlCharacters identifier)
      else if identifier = [] then Inl EmptyIdentifier
      else (case dbType of
          Postgres \<Rightarrow> Inr ([CHR 0x22] @ doubleChar (CHR 0x22) identifier @ [CHR 0x22])
        | Sqlite \<Rightarrow> Inr ([CHR 0x22] @ doubleChar (CHR 0x22) identifier @ [CHR 0x22])
        | Mysql \<Rightarrow> Inr ([CHR 0x60] @ doubleChar (CHR 0x60) identifier @ [CHR 0x60])
        | Mariadb \<Rightarrow> Inr ([CHR 0x60] @ doubleChar (CHR 0x60) identifier @ [CHR 0x60])
        | Tdengine \<Rightarrow> Inr ([CHR 0x60] @ doubleChar (CHR 0x60) identifier @ [CHR 0x60])
        | Sqlserver \<Rightarrow> Inr (''['' @ doubleChar (CHR '']'') identifier @ '']'')))"

fun quoteQualifiedIdentifier ::
  "string \<Rightarrow> string option \<Rightarrow> ConnectorType \<Rightarrow> quote_error + string" where
  "quoteQualifiedIdentifier tableName schemaName dbType =
     (case quoteIdentifier tableName dbType of
        Inl e \<Rightarrow> Inl e
      | Inr quotedTable \<Rightarrow>
          (case schemaName of
             None \<Rightarrow> Inr quotedTable
           | Some s \<Rightarrow>
               if s = [] then Inr quotedTable
               else (case quoteIdentifier s dbType of
                       Inl e \<Rightarrow> Inl e
                     | Inr quotedSchema \<Rightarrow> Inr (quotedSchema @ ''.'' @ quotedTable))))"

section \<open>SQL tokenizer (\<^verbatim>\<open>utils/sql-parser.ts\<close>)\<close>

text \<open>
  Modelled from the spec: \<^verbatim>\<open>stripCommentsAndStrings\<close> of \<^verbatim>\<open>utils/sql-parser.ts\<close>, which
  is imported by the classifier and the parameter analyzer but is not part of the
  sources at hand. Following section 4.1 of the specification, one left-to-right scan
  replaces every line comment (\<^verbatim>\<open>--\<close> up to, not including, the line end), every
  block comment (\<^verbatim>\<open>/* */\<close>), every single-quoted and every double-quoted string by
  one space; inside a string a doubled quote is an escaped quote, not a terminator;
  every other character, semicolons included, is copied.
\<close>

fun skipLineComment :: "string \<Rightarrow> string" where
  "skipLineComment [] = []"
| "skipLineComment (c # cs) = (if c = CHR 0x0A then c # cs else skipLineComment cs)"

fun skipBlockComment :: "string \<Rightarrow> string" where
  "skipBlockComment (c # d # cs) =
     (if c = CHR ''*'' \<and> d = CHR ''/'' then cs else skipBlockComment (d # cs))"
| "skipBlockComment cs = []"

fun skipQuoted :: "char \<Rightarrow> string \<Rightarrow> string" where
  "skipQuoted q (c # d # cs) =
     (if c = q \<and> d = q then skipQuoted q cs
      else if c = q then d # cs
      else skipQuoted q (d # cs))"
| "skipQuoted q cs = []"

text \<open>
  Modelled from the spec: the scan itself. A region that is not closed runs to the end of
  the text.
\<close>

function stripCommentsAndStrings :: "string \<Rightarrow> string" where
  "stripCommentsAndStrings [] = []"
| "stripCommentsAndStrings (c # cs) =
     (if c = CHR ''-'' \<and> take 1 cs = ''-'' then
        CHR '' '' # stripCommentsAndStrings (skipLineComment (tl cs))
      else if c = CHR ''/'' \<and> take 1 cs = ''*'' then
        CHR '' '' # stripCommentsAndStrings (skipBlockComment (tl cs))
      else if c = CHR 0x27 then
        CHR '' '' # stripCommentsAndStrings (skipQuoted (CHR 0x27) cs)
      else if c = CHR 0x22 then
        CHR '' '' # stripCommentsAndStrings (skipQuoted (CHR 0x22) cs)
      else c # stripCommentsAndStrings cs)"
  by pat_completeness auto
termination
proof (relation "measure length")
  have line: "length (skipLineComment s) \<le> length s" for s
    by (induction s) auto
  have block: "length (skipBlockComment s) \<le> length s" for s
    by (induction s rule: skipBlockComment.induct) auto
  have quoted: "length (skipQuoted q s) \<le> length s" for q s
    by (induction q s rule: skipQuoted.induct) auto
  show "wf (measure length)" by simp
  show "(skipLineComment (tl cs), c # cs) \<in> measure length" for c :: char and cs
    using line [of "tl cs"] by simp
  show "(skipBlockComment (tl cs), c # cs) \<in> measure length" for c :: char and cs
    using block [of "tl cs"] by simp
  show "(skipQuoted (CHR 0x27) cs, c # cs) \<in> measure length" for c :: char and cs
    using quoted [of "CHR 0x27" cs] by (simp add: le_imp_less_Suc)
  show "(skipQuoted (CHR 0x22) cs, c # cs) \<in> measure length" for c :: char and cs
    using quoted [of "CHR 0x22" cs] by (simp add: le_imp_less_Suc)
  show "(cs, c # cs) \<in> measure length" for c :: char and cs
    by simp
qed

section \<open>Read-only classifier (\<^verbatim>\<open>utils/allowed-keywords.ts\<close>)\<close>

fun allowedKeywords :: "ConnectorType \<Rightarrow> string list" where
  "allowedKeywords Postgres = [''select'', ''with'', ''explain'', ''analyze'', ''show'']"
| "allowedKeywords Mysql =
     [''select'', ''with'', ''explain'', ''analyze'', ''show'', ''describe'', ''desc'']"
| "allowedKeywords Mariadb =
     [''select'', ''with'', ''explain'', ''analyze'', ''show'', ''describe'', ''desc'']"
| "allowedKeywords Sqlite = [''select'', ''with'', ''explain'', ''analyze'', ''pragma'']"
| "allowedKeywords Sqlserver = [''select'', ''with'', ''explain'', ''showplan'']"
| "allowedKeywords Tdengine =
     [''select'', ''with'', ''explain'', ''show'', ''describe'', ''desc'']"

text \<open>
  \<^verbatim>\<open>stripCommentsAndStrings(sql).trim().toLowerCase()\<close>, and the first element of its
  split at \<^verbatim>\<open>/\s+/\<close>: the text is trimmed, so that element is the longest prefix
  without white space.
\<close>

definition cleanedLower :: "string \<Rightarrow> string" where
  "cleanedLower sql = toLowerCase (trim (stripCommentsAndStrings sql))"

definition firstWord :: "string \<Rightarrow> string" where
  "firstWord cleanedSQL = takeWhile (\<lambda>c. \<not> isSpace c) cleanedSQL"

text \<open>
  \<^verbatim>\<open>isReadOnlySQL\<close>. Its second parameter also admits arbitrary strings, for which the list
  of keywords is empty; every caller at hand passes a connector's \<^verbatim>\<open>id\<close>.
\<close>

definition isReadOnlySQL :: "string \<Rightarrow> ConnectorType \<Rightarrow> bool" where
  "isReadOnlySQL sql connectorType =
     (let cleanedSQL = cleanedLower sql in
      if cleanedSQL = [] then True
      else firstWord cleanedSQL \<in> set (allowedKeywords connectorType))"

section \<open>Parameter style analyzer (\<^verbatim>\<open>utils/parameter-mapper.ts\<close>)\<close>

datatype ParameterStyle = Numbered | Positional | Named | NoStyle

fun PARAMETER_STYLES :: "ConnectorType \<Rightarrow> ParameterStyle" where
  "PARAMETER_STYLES Postgres = Numbered"
| "PARAMETER_STYLES Mysql = Positional"
| "PARAMETER_STYLES Mariadb = Positional"
| "PARAMETER_STYLES Sqlserver = Named"
| "PARAMETER_STYLES Sqlite = Positional"
| "PARAMETER_STYLES Tdengine = Positional"

text \<open>
  \<^verbatim>\<open>s.match(/\$\d+/g)\<close> and \<^verbatim>\<open>s.match(/@p\d+/g)\<close>: the matches from left to right, each
  taking the longest run of digits, the scan resuming behind a match. Only the digits of
  a match are kept (the code slices the prefix off before \<^verbatim>\<open>parseInt\<close>).
\<close>

function numberedMatches :: "string \<Rightarrow> string list" where
  "numberedMatches [] = []"
| "numberedMatches (c # cs) =
     (if c = CHR ''$'' \<and> takeWhile isDigit cs \<noteq> []
      then takeWhile isDigit cs # numberedMatches (dropWhile isDigit cs)
      else numberedMatches cs)"
  by pat_completeness auto
termination
  by (relation "measure length") (auto simp: le_imp_less_Suc length_dropWhile_le)

function namedMatches :: "string \<Rightarrow> string list" where
  "namedMatches [] = []"
| "namedMatches (c # cs) =
     (if c = CHR ''@'' \<and> take 1 cs = ''p'' \<and> takeWhile isDigit (tl cs) \<noteq> []
      then takeWhile isDigit (tl cs) # namedMatches (dropWhile isDigit (tl cs))
      else namedMatches cs)"
  by pat_completeness auto
termination
proof (relation "measure length")
  show "wf (measure length)" by simp
next
  fix c :: char and cs :: string
  have "length (dropWhile isDigit (tl cs)) \<le> length (tl cs)"
    by (rule length_dropWhile_le)
  then show "(dropWhile isDigit (tl cs), c # cs) \<in> measure length" by simp
next
  fix c :: char and cs :: string
  show "(cs, c # cs) \<in> measure length" by simp
qed

text \<open>
  \<^verbatim>\<open>parseInt(digits, 10)\<close> on a non-empty run of decimal digits. Indices are natural
  numbers here; the host language's numbers agree with them below \<open>2\<^sup>5\<^sup>3\<close>.
\<close>

definition digitValue :: "char \<Rightarrow> nat" where
  "digitValue c = (case map_of (zip ''0123456789'' [0, 1, 2, 3, 4, 5, 6, 7, 8, 9]) c of
                     Some d \<Rightarrow> d | None \<Rightarrow> 0)"

definition parseInt :: "string \<Rightarrow> nat" where
  "parseInt ds = foldl (\<lambda>n c. 10 * n + digitValue c) 0 ds"

definition detectParameterStyle :: "string \<Rightarrow> ParameterStyle" where
  "detectParameterStyle statement =
     (let cleanedSQL = stripCommentsAndStrings statement in
      if numberedMatches cleanedSQL \<noteq> [] then Numbered
      else if namedMatches cleanedSQL \<noteq> [] then Named
      else if CHR ''?'' \<in> set cleanedSQL then Positional
      else NoStyle)"

datatype parameter_error =
    InvalidParameterSyntax ConnectorType ParameterStyle ParameterStyle
  | NonSequentialNumbered "nat list" nat
  | NonSequentialNamed "nat list" nat
  | ParameterCountMismatch nat nat

definition validateParameterStyle :: "string \<Rightarrow> ConnectorType \<Rightarrow> parameter_error + unit" where
  "validateParameterStyle statement connectorType =
     (let detectedStyle = detectParameterStyle statement;
          expectedStyle = PARAMETER_STYLES connectorType in
      if detectedStyle = NoStyle then Inr ()
      else if detectedStyle \<noteq> expectedStyle
        then Inl (InvalidParameterSyntax connectorType expectedStyle detectedStyle)
      else Inr ())"

text \<open>
  The unique indices in ascending order, their maximum, and the loop
  \<^verbatim>\<open>for (let i = 1; i <= maxIndex; i++)\<close> that raises at the first \<^verbatim>\<open>i\<close> the list
  does not include. The errors carry the list of found indices and the missing index that
  the message prints.
\<close>

definition uniqueSorted :: "nat list \<Rightarrow> nat list" where
  "uniqueSorted numbers = sort (remdups numbers)"

text \<open>\<^verbatim>\<open>Math.max(...uniqueIndices)\<close> of a non-empty list of indices.\<close>

definition maxIndexOf :: "nat list \<Rightarrow> nat" where
  "maxIndexOf uniqueIndices = fold max uniqueIndices 0"

definition firstMissing :: "nat list \<Rightarrow> nat \<Rightarrow> nat option" where
  "firstMissing uniqueIndices maxIndex =
     find (\<lambda>i. i \<notin> set uniqueIndices) [1 ..< Suc maxIndex]"

definition countParameters :: "string \<Rightarrow> parameter_error + nat" where
  "countParameters statement =
     (let style = detectParameterStyle statement;
          cleanedSQL = stripCommentsAndStrings statement in
      case style of
        Numbered \<Rightarrow>
          (let matches = numberedMatches cleanedSQL in
           if matches = [] then Inr 0
           else
             (let uniqueIndices = uniqueSorted (map parseInt matches);
                  maxIndex = maxIndexOf uniqueIndices in
              case firstMissing uniqueIndices maxIndex of
                Some i \<Rightarrow> Inl (NonSequentialNumbered uniqueIndices i)
              | None \<Rightarrow> Inr maxIndex))
      | Named \<Rightarrow>
          (let matches = namedMatches cleanedSQL in
           if matches = [] then Inr 0
           else
             (let uniqueIndices = uniqueSorted (map parseInt matches);
                  maxIndex = maxIndexOf uniqueIndices in
              case firstMissing uniqueIndices maxIndex of
                Some i \<Rightarrow> Inl (NonSequentialNamed uniqueIndices i)
              | None \<Rightarrow> Inr maxIndex))
      | Positional \<Rightarrow> Inr (length (filter (\<lambda>c. c = CHR ''?'') cleanedSQL))
      | NoStyle \<Rightarrow> Inr 0)"

definition validateParameters ::
  "string \<Rightarrow> nat option \<Rightarrow> ConnectorType \<Rightarrow> parameter_error + unit" where
  "validateParameters statement parameters connectorType =
     (case validateParameterStyle statement connectorType of
        Inl e \<Rightarrow> Inl e
      | Inr _ \<Rightarrow>
          (case countParameters statement of
             Inl e \<Rightarrow> Inl e
           | Inr paramCount \<Rightarrow>
               (let definedCount = (case parameters of None \<Rightarrow> 0 | Some n \<Rightarrow> n) in
                if paramCount \<noteq> definedCount
                then Inl (ParameterCountMismatch paramCount definedCount)
                else Inr ())))"

section \<open>The \<^verbatim>\<open>execute_sql\<close> tool handler (\<^verbatim>\<open>tools/execute-sql.ts\<close>)\<close>

text \<open>\<^verbatim>\<open>sql.split(';').map(s => s.trim()).filter(s => s.length > 0)\<close>.\<close>

definition splitSQLStatements :: "string \<Rightarrow> string list" where
  "splitSQLStatements sql = filter (\<lambda>statement. statement \<noteq> []) (map trim (splitOn (CHR '';'') sql))"

definition areAllStatementsReadOnly :: "string \<Rightarrow> ConnectorType \<Rightarrow> bool" where
  "areAllStatementsReadOnly sql connectorType =
     list_all (\<lambda>statement. isReadOnlySQL statement connectorType) (splitSQLStatements sql)"

record ExecuteOptions =
  opt_maxRows :: "nat option"
  opt_readonly :: "bool option"

record 'r SQLResult =
  rows :: "'r list"
  rowCount :: nat

text \<open>The per-tool configuration the registry returns (\<^verbatim>\<open>readonly\<close>, \<^verbatim>\<open>max_rows\<close>).\<close>

record ToolConfig =
  tc_readonly :: "bool option"
  tc_max_rows :: "nat option"

text \<open>
  What the handler uses of a connector: its dialect \<^verbatim>\<open>id\<close>, its source id
  (\<^verbatim>\<open>getId()\<close>) and \<^verbatim>\<open>executeSQL\<close>, which acts on the database behind it and either
  fails with a message or returns a result.
\<close>

record ('db, 'r) Connector =
  conn_type :: ConnectorType
  conn_sourceId :: string
  conn_executeSQL :: "string \<Rightarrow> ExecuteOptions \<Rightarrow> 'db \<Rightarrow> 'db \<times> (string + 'r SQLResult)"

datatype 'r ToolResponse =
    ToolSuccess "'r list" nat string
  | ToolError string string

text \<open>
  The outcome of one handler call: the response, the database afterwards, the calls of
  \<^verbatim>\<open>connector.executeSQL\<close> that were made, and what the \<^verbatim>\<open>finally\<close> block reports to
  \<^verbatim>\<open>trackToolRequest\<close> (\<^verbatim>\<open>success\<close>, \<^verbatim>\<open>errorMessage\<close>).
\<close>

record ('db, 'r) HandlerOutcome =
  response :: "'r ToolResponse"
  database :: 'db
  executeCalls :: "(string \<times> ExecuteOptions) list"
  trackedSuccess :: bool
  trackedError :: "string option"

definition readonlyMessage :: "ConnectorType \<Rightarrow> string" where
  "readonlyMessage connectorType =
     ''Read-only mode is enabled. Only the following SQL operations are allowed: ''
       @ (let joined = joinWith '', '' (allowedKeywords connectorType) in
          if joined = [] then ''none'' else joined)"

text \<open>
  The handler returned by \<^verbatim>\<open>createExecuteSqlToolHandler(sourceId)\<close>. The manager and the
  tool registry are its collaborators: \<open>ensured\<close> is the outcome of
  \<^verbatim>\<open>ConnectorManager.ensureConnected(sourceId)\<close>, \<open>current\<close> the outcome of
  \<^verbatim>\<open>ConnectorManager.getCurrentConnector(sourceId)\<close>, \<open>toolConfigOf\<close> the registry lookup
  by the connector's source id, \<open>effectiveSourceId\<close> the value of
  \<^verbatim>\<open>getEffectiveSourceId(sourceId)\<close>. An exception anywhere in the \<^verbatim>\<open>try\<close> block ends in
  the \<^verbatim>\<open>catch\<close> branch with the code \<^verbatim>\<open>EXECUTION_ERROR\<close>.
\<close>

definition executeSqlToolHandler ::
  "(string + unit) \<Rightarrow> (string + ('db, 'r) Connector) \<Rightarrow> (string \<Rightarrow> ToolConfig option)
     \<Rightarrow> string \<Rightarrow> string \<Rightarrow> 'db \<Rightarrow> ('db, 'r) HandlerOutcome" where
  "executeSqlToolHandler ensured current toolConfigOf effectiveSourceId sql db =
     (case ensured of
        Inl msg \<Rightarrow>
          \<lparr>response = ToolError msg ''EXECUTION_ERROR'', database = db, executeCalls = [],
           trackedSuccess = False, trackedError = Some msg\<rparr>
      | Inr _ \<Rightarrow>
     (case current of
        Inl msg \<Rightarrow>
          \<lparr>response = ToolError msg ''EXECUTION_ERROR'', database = db, executeCalls = [],
           trackedSuccess = False, trackedError = Some msg\<rparr>
      | Inr connector \<Rightarrow>
          (let actualSourceId = conn_sourceId connector;
               toolConfig = toolConfigOf actualSourceId;
               isReadonly = (Option.bind toolConfig tc_readonly = Some True)
           in
           if isReadonly \<and> \<not> areAllStatementsReadOnly sql (conn_type connector) then
             \<lparr>response = ToolError (readonlyMessage (conn_type connector)) ''READONLY_VIOLATION'',
              database = db, executeCalls = [],
              trackedSuccess = False,
              trackedError = Some (readonlyMessage (conn_type connector))\<rparr>
           else
             (let executeOptions =
                    \<lparr>opt_maxRows = Option.bind toolConfig tc_max_rows,
                     opt_readonly = Option.bind toolConfig tc_readonly\<rparr>
              in
              case conn_executeSQL connector sql executeOptions db of
                (db', Inl msg) \<Rightarrow>
                  \<lparr>response = ToolError msg ''EXECUTION_ERROR'', database = db',
                   executeCalls = [(sql, executeOptions)],
                   trackedSuccess = False, trackedError = Some msg\<rparr>
              | (db', Inr result) \<Rightarrow>
                  \<lparr>response = ToolSuccess (rows result) (rowCount result) effectiveSourceId,
                   database = db', executeCalls = [(sql, executeOptions)],
                   trackedSuccess = True, trackedError = None\<rparr>))))"

section \<open>Row limiter (\<^verbatim>\<open>utils/sql-row-limiter.ts\<close>)\<close>

text \<open>Decimal rendering of a number, as a template literal prints it.\<close>

definition digitChar :: "nat \<Rightarrow> char" where
  "digitChar d = ''0123456789'' ! d"

function showNat :: "nat \<Rightarrow> string" where
  "showNat n = (if n < 10 then [digitChar n] else showNat (n div 10) @ [digitChar (n mod 10)])"
  by pat_completeness auto
termination
  by (relation "measure id") auto
declare showNat.simps [simp del]

definition isWordChar :: "char \<Rightarrow> bool" where
  "isWordChar c =
     (c \<in> set ''abcdefghijklmnopqrstuvwxyzABCDEFGHIJKLMNOPQRSTUVWXYZ0123456789_'')"

definition trimEnd :: "string \<Rightarrow> string" where
  "trimEnd s = rev (dropWhile isSpace (rev s))"

text \<open>
  Modelled from the spec: \<^verbatim>\<open>SQLRowLimiter.applyMaxRows\<close> of \<^verbatim>\<open>utils/sql-row-limiter.ts\<close>,
  which the connector calls but which is not part of the sources at hand. Following
  section 4.4 of the specification: without \<^verbatim>\<open>maxRows\<close> nothing is rewritten; a statement
  that begins with a \<^verbatim>\<open>WITH\<close> clause is left as it is; otherwise a trailing \<^verbatim>\<open>LIMIT n\<close> is
  rewritten to the minimum of \<^verbatim>\<open>n\<close> and \<^verbatim>\<open>maxRows\<close>, and a statement without one gets
  \<^verbatim>\<open>LIMIT maxRows\<close> appended. \<open>trailingLimit\<close> finds the clause at the end of the
  statement (the keyword in any case, white space, digits) and returns the text in front
  of the keyword and the number.
\<close>

definition trailingLimit :: "string \<Rightarrow> (string \<times> nat) option" where
  "trailingLimit statement =
     (let r = dropWhile isSpace (rev statement);
          ds = takeWhile isDigit r;
          r1 = dropWhile isDigit r;
          r2 = dropWhile isSpace r1;
          kw = take 5 r2;
          r3 = drop 5 r2
      in if ds \<noteq> [] \<and> r1 \<noteq> r2 \<and> toLowerCase kw = ''timil''
            \<and> (case r3 of [] \<Rightarrow> True | c # _ \<Rightarrow> \<not> isWordChar c)
         then Some (rev r3, parseInt (rev ds))
         else None)"


text \<open>
  Modelled from the spec: a statement begins with a \<^verbatim>\<open>WITH\<close> clause when that is its leading
  keyword (comments skipped, any case).
\<close>

definition beginsWithCTE :: "string \<Rightarrow> bool" where
  "beginsWithCTE statement = (firstWord (cleanedLower statement) = ''with'')"

text \<open>
  Modelled from the spec: the rewriting of one statement, as described above.
\<close>

definition applyMaxRows :: "string \<Rightarrow> nat option \<Rightarrow> string" where
  "applyMaxRows statement maxRows =
     (case maxRows of
        None \<Rightarrow> statement
      | Some m \<Rightarrow>
          if beginsWithCTE statement then statement
          else (case trailingLimit statement of
                  Some (front, n) \<Rightarrow> front @ ''LIMIT '' @ showNat (min n m)
                | None \<Rightarrow> trimEnd statement @ '' LIMIT '' @ showNat m))"

section \<open>The time-series connector (\<^verbatim>\<open>connectors/tdengine/index.ts\<close>)\<close>

text \<open>
  What \<^verbatim>\<open>executeSQL\<close> reads of a REST response: the rows \<^verbatim>\<open>normalizeRows\<close> makes of it,
  its \<^verbatim>\<open>rows\<close> field when that is a number, and the count \<^verbatim>\<open>extractAffectedRows\<close> finds.
\<close>

record 'r TDengineRestResponse =
  td_normalizedRows :: "'r list"
  td_rowsField :: "nat option"
  td_affectedRows :: nat

text \<open>
  The statement sent for one statement of the batch: a query-shaped statement goes
  through the row limiter, any other statement is sent as it is.
\<close>

definition processedStatement :: "string \<Rightarrow> nat option \<Rightarrow> string" where
  "processedStatement statement maxRows =
     (if isReadOnlySQL statement Tdengine then applyMaxRows statement maxRows else statement)"

text \<open>
  The loop over the statements. \<open>executeRaw\<close> is the REST call; it acts on the database
  and fails with a message or returns a response. The log collects the statements sent,
  in order. A failing call ends the loop with the error; what was sent before stays sent.
\<close>

fun runStatements ::
  "(string \<Rightarrow> 'db \<Rightarrow> 'db \<times> (string + 'r TDengineRestResponse)) \<Rightarrow> nat option \<Rightarrow> string list
     \<Rightarrow> 'db \<Rightarrow> string list \<Rightarrow> 'r list \<Rightarrow> nat
     \<Rightarrow> 'db \<times> string list \<times> (string + 'r SQLResult)" where
  "runStatements executeRaw maxRows [] db sent allRows totalRowCount =
     (db, sent, Inr \<lparr>rows = allRows, rowCount = totalRowCount\<rparr>)"
| "runStatements executeRaw maxRows (statement # statements) db sent allRows totalRowCount =
     (let isQuery = isReadOnlySQL statement Tdengine;
          processed = processedStatement statement maxRows
      in case executeRaw processed db of
           (db', Inl msg) \<Rightarrow> (db', sent @ [processed], Inl msg)
         | (db', Inr resp) \<Rightarrow>
             if isQuery then
               (let rs = td_normalizedRows resp;
                    n = (case td_rowsField resp of Some k \<Rightarrow> k | None \<Rightarrow> length rs)
                in runStatements executeRaw maxRows statements db' (sent @ [processed])
                     (allRows @ rs) (totalRowCount + n))
             else
               runStatements executeRaw maxRows statements db' (sent @ [processed])
                 allRows (totalRowCount + td_affectedRows resp))"

definition tdengineStatements :: "string \<Rightarrow> string list" where
  "tdengineStatements sql =
     filter (\<lambda>statement. statement \<noteq> []) (map trim (splitOn (CHR '';'') sql))"

definition tdengine_executeSQL ::
  "bool \<Rightarrow> (string \<Rightarrow> 'db \<Rightarrow> 'db \<times> (string + 'r TDengineRestResponse))
     \<Rightarrow> string \<Rightarrow> ExecuteOptions \<Rightarrow> nat \<Rightarrow> 'db
     \<Rightarrow> 'db \<times> string list \<times> (string + 'r SQLResult)" where
  "tdengine_executeSQL connected executeRaw sql options parameterCount db =
     (if \<not> connected then (db, [], Inl ''Not connected to database'')
      else if parameterCount > 0 then
        (db, [], Inl ''TDengine REST connector does not support parameterized queries.'')
      else runStatements executeRaw (opt_maxRows options) (tdengineStatements sql) db [] [] 0)"

section \<open>Connector manager (\<^verbatim>\<open>connectors/manager.ts\<close>)\<close>

text \<open>The fields of a source configuration that the manager reads.\<close>

record SourceConfig =
  src_id :: string
  src_lazy :: bool
  src_ssh_host :: "string option"
  src_ssh_port :: "nat option"
  src_ssh_user :: "string option"
  src_ssh_password :: "string option"
  src_ssh_key :: "string option"
  src_init_script :: "string option"

text \<open>
  The collaborators of the manager that are not part of the sources at hand are
  parameters: \<^verbatim>\<open>buildDSNFromSource\<close> (it may throw), the URL class (parsing may throw; the
  parsed host and port; the URL with host and port replaced by the tunnel's local end),
  the default port of a DSN, and the registered connectors with their
  \<^verbatim>\<open>isValidDSN\<close> predicates in registration order.
\<close>

record Env =
  buildDSNFromSource :: "SourceConfig \<Rightarrow> string + string"
  parseURL :: "string \<Rightarrow> string + (string \<times> nat option)"
  withTunnelEndpoint :: "string \<Rightarrow> nat \<Rightarrow> string"
  getDefaultPort :: "string \<Rightarrow> nat"
  registry :: "(ConnectorType \<times> (string \<Rightarrow> bool)) list"

text \<open>\<^verbatim>\<open>ConnectorRegistry.getConnectorForDSN\<close>: the first registered connector that accepts the DSN.\<close>

definition getConnectorForDSN :: "Env \<Rightarrow> string \<Rightarrow> ConnectorType option" where
  "getConnectorForDSN env dsn = map_option fst (find (\<lambda>(t, isValidDSN). isValidDSN dsn) (registry env))"

text \<open>
  The fields of one \<^verbatim>\<open>ConnectorManager\<close> object. A connector instance is identified by
  the number it got when it was cloned, a tunnel by the number it got when it was
  created, a connection promise by its handle.
\<close>

record Manager =
  connectors :: "string \<rightharpoonup> nat"
  sshTunnels :: "string \<rightharpoonup> nat"
  sourceConfigs :: "string \<rightharpoonup> SourceConfig"
  sourceIds :: "string list"
  lazySources :: "string \<rightharpoonup> SourceConfig"
  pendingConnections :: "string \<rightharpoonup> nat"

definition emptyManager :: Manager where
  "emptyManager =
     \<lparr>connectors = Map.empty, sshTunnels = Map.empty, sourceConfigs = Map.empty,
      sourceIds = [], lazySources = Map.empty, pendingConnections = Map.empty\<rparr>"

text \<open>
  The code runs on one thread; an \<^verbatim>\<open>async\<close> function runs until its next \<^verbatim>\<open>await\<close> and
  is resumed later by the event loop. A connection attempt (the promise that
  \<^verbatim>\<open>ensureConnected\<close> stores) is therefore suspended at one of three places: in
  \<^verbatim>\<open>connectSource\<close> at \<^verbatim>\<open>await tunnel.establish(...)\<close>, in \<^verbatim>\<open>connectSource\<close> at
  \<^verbatim>\<open>await connector.connect(...)\<close>, or in \<^verbatim>\<open>ensureConnected\<close> at
  \<^verbatim>\<open>await this.connectSource(...)\<close> with \<^verbatim>\<open>connectSource\<close> already settled (returned or
  thrown).
\<close>

datatype stage =
    AwaitTunnel string nat
  | AwaitConnect nat
  | Settled "string + unit"

record Attempt =
  att_manager :: nat
  att_sourceId :: string
  att_source :: SourceConfig
  att_stage :: stage

text \<open>
  The state of the module: the variable \<^verbatim>\<open>managerInstance\<close>, the manager objects
  constructed so far, the suspended connection attempts by promise handle, the counters
  for fresh promises, connector instances and tunnels, and the log of the calls made to
  \<^verbatim>\<open>connector.connect\<close> (instance, source id, DSN) and to \<^verbatim>\<open>tunnel.establish\<close>.
\<close>

record World =
  managerInstance :: "nat option"
  managers :: "nat \<Rightarrow> Manager"
  managerCount :: nat
  attempts :: "nat \<rightharpoonup> Attempt"
  nextPromise :: nat
  nextInstance :: nat
  nextTunnel :: nat
  connectCalls :: "(nat \<times> string \<times> string) list"
  tunnelCalls :: "(nat \<times> string \<times> nat) list"

definition initialWorld :: World where
  "initialWorld =
     \<lparr>managerInstance = None, managers = (\<lambda>_. emptyManager), managerCount = 0,
      attempts = Map.empty, nextPromise = 0, nextInstance = 0, nextTunnel = 0,
      connectCalls = [], tunnelCalls = []\<rparr>"

definition updateManager :: "nat \<Rightarrow> (Manager \<Rightarrow> Manager) \<Rightarrow> World \<Rightarrow> World" where
  "updateManager r f w = w\<lparr>managers := (managers w)(r := f (managers w r))\<rparr>"

text \<open>The constructor: \<^verbatim>\<open>if (!managerInstance) { managerInstance = this; }\<close>.\<close>

definition newConnectorManager :: "World \<Rightarrow> World \<times> nat" where
  "newConnectorManager w =
     (let r = managerCount w;
          w1 = w\<lparr>managers := (managers w)(r := emptyManager), managerCount := Suc r\<rparr>
      in (if managerInstance w1 = None then w1\<lparr>managerInstance := Some r\<rparr> else w1, r))"

definition truthy :: "string option \<Rightarrow> bool" where
  "truthy s = (case s of None \<Rightarrow> False | Some t \<Rightarrow> t \<noteq> [])"

text \<open>\<^verbatim>\<open>sourceId || this.sourceIds[0]\<close>.\<close>

definition effectiveId :: "Manager \<Rightarrow> string option \<Rightarrow> string option" where
  "effectiveId m sourceId =
     (if truthy sourceId then sourceId
      else (case sourceIds m of [] \<Rightarrow> None | x # _ \<Rightarrow> Some x))"

definition lookupId :: "(string \<rightharpoonup> 'a) \<Rightarrow> string option \<Rightarrow> 'a option" where
  "lookupId table key = (case key of None \<Rightarrow> None | Some k \<Rightarrow> table k)"

definition notFoundMessage :: "Manager \<Rightarrow> string \<Rightarrow> string" where
  "notFoundMessage m sourceId =
     ''Source ''
       @ [CHR 0x27] @ sourceId @ [CHR 0x27]
       @ '' not found. Available sources: '' @ joinWith '', '' (sourceIds m)"

text \<open>
  \<^verbatim>\<open>registerLazySource\<close>: the DSN is built first (for the log line), so a source whose DSN
  cannot be built is not registered and the error is passed on.
\<close>

definition registerLazySource :: "Env \<Rightarrow> nat \<Rightarrow> SourceConfig \<Rightarrow> World \<Rightarrow> World \<times> string option" where
  "registerLazySource env r source w =
     (case buildDSNFromSource env source of
        Inl e \<Rightarrow> (w, Some e)
      | Inr dsn \<Rightarrow>
          (updateManager r
             (\<lambda>m. m\<lparr>lazySources := (lazySources m)(src_id source \<mapsto> source),
                     sourceConfigs := (sourceConfigs m)(src_id source \<mapsto> source),
                     sourceIds := sourceIds m @ [src_id source]\<rparr>) w,
           None))"

text \<open>
  \<^verbatim>\<open>connectSource\<close> from the lookup of the connector prototype to
  \<^verbatim>\<open>await connector.connect(...)\<close>: without a prototype it throws; otherwise the prototype
  is cloned, \<^verbatim>\<open>connect\<close> is called on the clone, and the attempt waits for it.
\<close>

definition connectSource_connect :: "Env \<Rightarrow> SourceConfig \<Rightarrow> string \<Rightarrow> World \<Rightarrow> World \<times> stage" where
  "connectSource_connect env source actualDSN w =
     (case getConnectorForDSN env actualDSN of
        None \<Rightarrow>
          (w, Settled (Inl (''Source '' @ [CHR 0x27] @ src_id source @ [CHR 0x27]
                            @ '': No connector found for DSN: '' @ actualDSN)))
      | Some connectorType \<Rightarrow>
          (let connector = nextInstance w in
           (w\<lparr>nextInstance := Suc connector,
              connectCalls := connectCalls w @ [(connector, src_id source, actualDSN)]\<rparr>,
            AwaitConnect connector)))"

text \<open>
  \<^verbatim>\<open>connectSource\<close> from its start to its first \<^verbatim>\<open>await\<close>. With an SSH host the fields
  are validated, the DSN is parsed, a tunnel is created and \<^verbatim>\<open>establish\<close> is called;
  without one the connector is looked up at once.
\<close>

definition connectSource_start :: "Env \<Rightarrow> SourceConfig \<Rightarrow> World \<Rightarrow> World \<times> stage" where
  "connectSource_start env source w =
     (case buildDSNFromSource env source of
        Inl e \<Rightarrow> (w, Settled (Inl e))
      | Inr dsn \<Rightarrow>
          if truthy (src_ssh_host source) then
            if \<not> truthy (src_ssh_user source) then
              (w, Settled (Inl (''Source '' @ [CHR 0x27] @ src_id source @ [CHR 0x27]
                                @ '': SSH tunnel requires ssh_user'')))
            else if \<not> truthy (src_ssh_password source) \<and> \<not> truthy (src_ssh_key source) then
              (w, Settled (Inl (''Source '' @ [CHR 0x27] @ src_id source @ [CHR 0x27]
                                @ '': SSH tunnel requires either ssh_password or ssh_key'')))
            else
              (case parseURL env dsn of
                 Inl e \<Rightarrow> (w, Settled (Inl e))
               | Inr (targetHost, port) \<Rightarrow>
                   (let targetPort = (case port of
                                        None \<Rightarrow> getDefaultPort env dsn
                                      | Some p \<Rightarrow> if p = 0 then getDefaultPort env dsn else p);
                        tunnel = nextTunnel w
                    in (w\<lparr>nextTunnel := Suc tunnel,
                          tunnelCalls := tunnelCalls w @ [(tunnel, targetHost, targetPort)]\<rparr>,
                        AwaitTunnel dsn tunnel)))
          else connectSource_connect env source dsn w)"

datatype call_result = Returned | Thrown string | Awaits nat

text \<open>
  The message of the error branch: a truthy \<^verbatim>\<open>sourceId\<close> is reported as not found,
  otherwise no source is configured.
\<close>

definition missingSourceMessage :: "Manager \<Rightarrow> string option \<Rightarrow> string \<Rightarrow> string" where
  "missingSourceMessage m sourceId fallback =
     (case sourceId of
        None \<Rightarrow> fallback
      | Some s \<Rightarrow> if s \<noteq> [] then notFoundMessage m s else fallback)"

text \<open>
  \<^verbatim>\<open>ensureConnected\<close> up to the point where it returns its promise: the checks, and for a
  new attempt the start of \<^verbatim>\<open>connectSource\<close> inside the promise, which is then stored in
  \<^verbatim>\<open>pendingConnections\<close>. The result says how the promise of the call settles:
  \<open>Returned\<close> is fulfilled at once, \<open>Thrown\<close> is rejected at once, \<open>Awaits h\<close> is resolved
  with the connection promise with handle \<open>h\<close> and settles as that one does.
  With an undefined key (no source id given and none registered) no map has an entry, so
  the call ends in the error branch.
\<close>

definition ensureConnected :: "Env \<Rightarrow> nat \<Rightarrow> string option \<Rightarrow> World \<Rightarrow> World \<times> call_result" where
  "ensureConnected env r sourceId w =
     (let m = managers w r;
          notFound = Thrown (missingSourceMessage m sourceId
                       ''No sources configured. Call connectWithSources() first.'')
      in
      case effectiveId m sourceId of
        None \<Rightarrow> (w, notFound)
      | Some k \<Rightarrow>
          if connectors m k \<noteq> None then (w, Returned)
          else
            (case lazySources m k of
               None \<Rightarrow> (w, notFound)
             | Some lazySource \<Rightarrow>
                 (case pendingConnections m k of
                    Some pending \<Rightarrow> (w, Awaits pending)
                  | None \<Rightarrow>
                      (let (w1, st) = connectSource_start env lazySource w;
                           h = nextPromise w1;
                           w2 = w1\<lparr>attempts := (attempts w1)(h \<mapsto>
                                       \<lparr>att_manager = r, att_sourceId = k,
                                        att_source = lazySource, att_stage = st\<rparr>),
                                    nextPromise := Suc h\<rparr>
                       in (updateManager r
                             (\<lambda>m. m\<lparr>pendingConnections := (pendingConnections m)(k \<mapsto> h)\<rparr>)
                             w2,
                           Awaits h)))))"


text \<open>The static method: it needs the singleton and calls the method on it.\<close>

definition static_ensureConnected :: "Env \<Rightarrow> string option \<Rightarrow> World \<Rightarrow> World \<times> call_result" where
  "static_ensureConnected env sourceId w =
     (case managerInstance w of
        None \<Rightarrow> (w, Thrown ''ConnectorManager not initialized'')
      | Some r \<Rightarrow> ensureConnected env r sourceId w)"

text \<open>
  The three ways a suspended attempt is resumed. \<open>tunnelSettled\<close>: \<^verbatim>\<open>tunnel.establish\<close>
  has settled; on success the tunnel is stored, the DSN is pointed at its local port and
  \<^verbatim>\<open>connectSource\<close> goes on to the connector. \<open>connectSettled\<close>: \<^verbatim>\<open>connector.connect\<close> has
  settled; on success \<^verbatim>\<open>connectSource\<close> stores the connector, the source id (if new) and
  the configuration, and returns. \<open>resumeAttempt\<close>: \<^verbatim>\<open>ensureConnected\<close>'s promise goes on
  behind \<^verbatim>\<open>await this.connectSource(...)\<close>: after a success the source leaves
  \<^verbatim>\<open>lazySources\<close>; in both cases the \<^verbatim>\<open>finally\<close> block removes the promise from
  \<^verbatim>\<open>pendingConnections\<close>; the promise settles with the outcome, which is what every caller
  waiting for it receives.
\<close>

definition tunnelSettled :: "Env \<Rightarrow> nat \<Rightarrow> string + nat \<Rightarrow> World \<Rightarrow> World" where
  "tunnelSettled env h outcome w =
     (case attempts w h of
        None \<Rightarrow> w
      | Some a \<Rightarrow>
          (case att_stage a of
             AwaitTunnel dsn tunnel \<Rightarrow>
               (case outcome of
                  Inl e \<Rightarrow> w\<lparr>attempts := (attempts w)(h \<mapsto> a\<lparr>att_stage := Settled (Inl e)\<rparr>)\<rparr>
                | Inr localPort \<Rightarrow>
                    (let actualDSN = withTunnelEndpoint env dsn localPort;
                         w1 = updateManager (att_manager a)
                                (\<lambda>m. m\<lparr>sshTunnels :=
                                          (sshTunnels m)(src_id (att_source a) \<mapsto> tunnel)\<rparr>) w;
                         (w2, st) = connectSource_connect env (att_source a) actualDSN w1
                     in w2\<lparr>attempts := (attempts w2)(h \<mapsto> a\<lparr>att_stage := st\<rparr>)\<rparr>))
           | _ \<Rightarrow> w))"

definition connectSettled :: "nat \<Rightarrow> string + unit \<Rightarrow> World \<Rightarrow> World" where
  "connectSettled h outcome w =
     (case attempts w h of
        None \<Rightarrow> w
      | Some a \<Rightarrow>
          (case att_stage a of
             AwaitConnect connector \<Rightarrow>
               (case outcome of
                  Inl e \<Rightarrow> w\<lparr>attempts := (attempts w)(h \<mapsto> a\<lparr>att_stage := Settled (Inl e)\<rparr>)\<rparr>
                | Inr _ \<Rightarrow>
                    (let sourceId = src_id (att_source a);
                         w1 = updateManager (att_manager a)
                                (\<lambda>m. m\<lparr>connectors := (connectors m)(sourceId \<mapsto> connector),
                                        sourceIds := (if sourceId \<in> set (sourceIds m)
                                                      then sourceIds m
                                                      else sourceIds m @ [sourceId]),
                                        sourceConfigs :=
                                          (sourceConfigs m)(sourceId \<mapsto> att_source a)\<rparr>) w
                     in w1\<lparr>attempts := (attempts w1)(h \<mapsto> a\<lparr>att_stage := Settled (Inr ())\<rparr>)\<rparr>))
           | _ \<Rightarrow> w))"

definition resumeAttempt :: "nat \<Rightarrow> World \<Rightarrow> World \<times> (string + unit) option" where
  "resumeAttempt h w =
     (case attempts w h of
        None \<Rightarrow> (w, None)
      | Some a \<Rightarrow>
          (case att_stage a of
             Settled outcome \<Rightarrow>
               (let w1 = (case outcome of
                            Inr _ \<Rightarrow>
                              updateManager (att_manager a)
                                (\<lambda>m. m\<lparr>lazySources := (lazySources m)(att_sourceId a := None)\<rparr>) w
                          | Inl _ \<Rightarrow> w);
                    w2 = updateManager (att_manager a)
                           (\<lambda>m. m\<lparr>pendingConnections :=
                                     (pendingConnections m)(att_sourceId a := None)\<rparr>) w1
                in (w2\<lparr>attempts := (attempts w2)(h := None)\<rparr>, Some outcome))
           | _ \<Rightarrow> (w, None)))"

text \<open>The getters and their static forms.\<close>

definition getConnector :: "nat \<Rightarrow> string option \<Rightarrow> World \<Rightarrow> string + nat" where
  "getConnector r sourceId w =
     (let m = managers w r in
      case lookupId (connectors m) (effectiveId m sourceId) of
        Some connector \<Rightarrow> Inr connector
      | None \<Rightarrow>
          Inl (missingSourceMessage m sourceId
                 ''No sources connected. Call connectWithSources() first.''))"

definition getCurrentConnector :: "string option \<Rightarrow> World \<Rightarrow> string + nat" where
  "getCurrentConnector sourceId w =
     (case managerInstance w of
        None \<Rightarrow> Inl ''ConnectorManager not initialized''
      | Some r \<Rightarrow> getConnector r sourceId w)"

definition getSourceIds :: "nat \<Rightarrow> World \<Rightarrow> string list" where
  "getSourceIds r w = sourceIds (managers w r)"

definition getAvailableSourceIds :: "World \<Rightarrow> string + string list" where
  "getAvailableSourceIds w =
     (case managerInstance w of
        None \<Rightarrow> Inl ''ConnectorManager not initialized''
      | Some r \<Rightarrow> Inr (getSourceIds r w))"

definition getSourceConfig :: "nat \<Rightarrow> string option \<Rightarrow> World \<Rightarrow> SourceConfig option" where
  "getSourceConfig r sourceId w =
     (let m = managers w r in
      if sourceIds m = [] then None
      else lookupId (sourceConfigs m) (effectiveId m sourceId))"

definition static_getSourceConfig :: "string option \<Rightarrow> World \<Rightarrow> string + SourceConfig option" where
  "static_getSourceConfig sourceId w =
     (case managerInstance w of
        None \<Rightarrow> Inl ''ConnectorManager not initialized''
      | Some r \<Rightarrow> Inr (getSourceConfig r sourceId w))"

text \<open>
  \<^verbatim>\<open>disconnect\<close> changes the manager only behind its last \<^verbatim>\<open>await\<close>, where it clears every
  map and the list of source ids.
\<close>

definition disconnectFinish :: "nat \<Rightarrow> World \<Rightarrow> World" where
  "disconnectFinish r w = updateManager r (\<lambda>m. emptyManager) w"

text \<open>
  What can happen to the module, one atomic piece of code at a time: a manager is
  constructed, a method is called, a suspended attempt is resumed.
\<close>

datatype event =
    Construct
  | RegisterLazy nat SourceConfig
  | EnsureConnected nat "string option"
  | StaticEnsureConnected "string option"
  | TunnelSettled nat "string + nat"
  | ConnectSettled nat "string + unit"
  | ResumeAttempt nat
  | DisconnectFinish nat

fun step :: "Env \<Rightarrow> World \<Rightarrow> event \<Rightarrow> World" where
  "step env w Construct = fst (newConnectorManager w)"
| "step env w (RegisterLazy r source) = fst (registerLazySource env r source w)"
| "step env w (EnsureConnected r sourceId) = fst (ensureConnected env r sourceId w)"
| "step env w (StaticEnsureConnected sourceId) = fst (static_ensureConnected env sourceId w)"
| "step env w (TunnelSettled h outcome) = tunnelSettled env h outcome w"
| "step env w (ConnectSettled h outcome) = connectSettled h outcome w"
| "step env w (ResumeAttempt h) = fst (resumeAttempt h w)"
| "step env w (DisconnectFinish r) = disconnectFinish r w"

definition run :: "Env \<Rightarrow> World \<Rightarrow> event list \<Rightarrow> World" where
  "run env w evs = foldl (step env) w evs"

chapter \<open>Notions for stating the properties\<close>

section \<open>Reading a quoted identifier back\<close>

text \<open>
  The inverse direction is not part of the repository; it is written from the words of
  the specification: strip the outer delimiters, then collapse each doubled escape
  character of the dialect to a single one.
\<close>

fun escapeChar :: "ConnectorType \<Rightarrow> char" where
  "escapeChar Postgres = CHR 0x22"
| "escapeChar Sqlite = CHR 0x22"
| "escapeChar Mysql = CHR 0x60"
| "escapeChar Mariadb = CHR 0x60"
| "escapeChar Tdengine = CHR 0x60"
| "escapeChar Sqlserver = CHR '']''"

fun collapseDoubled :: "char \<Rightarrow> string \<Rightarrow> string" where
  "collapseDoubled q (c # d # cs) =
     (if c = q \<and> d = q then q # collapseDoubled q cs else c # collapseDoubled q (d # cs))"
| "collapseDoubled q cs = cs"

definition stripDelimiters :: "string \<Rightarrow> string" where
  "stripDelimiters s = butlast (tl s)"

definition unquoteIdentifier :: "string \<Rightarrow> ConnectorType \<Rightarrow> string" where
  "unquoteIdentifier quoted dbType = collapseDoubled (escapeChar dbType) (stripDelimiters quoted)"

section \<open>Statements as sequences of plain text, literals and comments\<close>

text \<open>
  To speak about text inside and outside of literals and comments, a statement is
  described as a sequence of segments: plain text, or one complete single-quoted string,
  double-quoted string, line comment or block comment. \<open>segmentOK\<close> says that a segment
  is what it claims to be in front of the text that follows: plain text opens no string
  and no comment, a string body has its quotes doubled and the closing quote is not
  followed by another one, a line comment runs to the line end, a block comment body
  does not contain the closing mark.
\<close>

fun plainBefore :: "string \<Rightarrow> string \<Rightarrow> bool" where
  "plainBefore [] rest = True"
| "plainBefore (c # cs) rest =
     (c \<noteq> CHR 0x27 \<and> c \<noteq> CHR 0x22
      \<and> (c = CHR ''-'' \<longrightarrow> take 1 (cs @ rest) \<noteq> ''-'')
      \<and> (c = CHR ''/'' \<longrightarrow> take 1 (cs @ rest) \<noteq> ''*'')
      \<and> plainBefore cs rest)"

fun escapedBody :: "char \<Rightarrow> string \<Rightarrow> bool" where
  "escapedBody q [] = True"
| "escapedBody q [c] = (c \<noteq> q)"
| "escapedBody q (c # d # cs) =
     (if c = q then d = q \<and> escapedBody q cs else escapedBody q (d # cs))"

fun hasBlockEnd :: "string \<Rightarrow> bool" where
  "hasBlockEnd (c # d # cs) = ((c = CHR ''*'' \<and> d = CHR ''/'') \<or> hasBlockEnd (d # cs))"
| "hasBlockEnd cs = False"

definition notStartingWith :: "char \<Rightarrow> string \<Rightarrow> bool" where
  "notStartingWith q rest = (case rest of [] \<Rightarrow> True | c # _ \<Rightarrow> c \<noteq> q)"

datatype segment =
    Plain string
  | SingleQuoted string
  | DoubleQuoted string
  | LineComment string
  | BlockComment string

fun segmentText :: "segment \<Rightarrow> string" where
  "segmentText (Plain s) = s"
| "segmentText (SingleQuoted body) = CHR 0x27 # body @ [CHR 0x27]"
| "segmentText (DoubleQuoted body) = CHR 0x22 # body @ [CHR 0x22]"
| "segmentText (LineComment body) = ''--'' @ body"
| "segmentText (BlockComment body) = ''/*'' @ body @ ''*/''"

fun outsideText :: "segment \<Rightarrow> string" where
  "outsideText (Plain s) = s"
| "outsideText seg = '' ''"

definition render :: "segment list \<Rightarrow> string" where
  "render segs = concat (map segmentText segs)"

definition blanked :: "segment list \<Rightarrow> string" where
  "blanked segs = concat (map outsideText segs)"

fun segmentOK :: "segment \<Rightarrow> string \<Rightarrow> bool" where
  "segmentOK (Plain s) rest = plainBefore s rest"
| "segmentOK (SingleQuoted body) rest =
     (escapedBody (CHR 0x27) body \<and> notStartingWith (CHR 0x27) rest)"
| "segmentOK (DoubleQuoted body) rest =
     (escapedBody (CHR 0x22) body \<and> notStartingWith (CHR 0x22) rest)"
| "segmentOK (LineComment body) rest =
     (CHR 0x0A \<notin> set body \<and> (rest = [] \<or> hd rest = CHR 0x0A))"
| "segmentOK (BlockComment body) rest = (\<not> hasBlockEnd body)"

fun wellFormed :: "segment list \<Rightarrow> bool" where
  "wellFormed [] = True"
| "wellFormed (seg # segs) = (segmentOK seg (concat (map segmentText segs)) \<and> wellFormed segs)"

text \<open>
  The text of a statement outside of its literals and comments: the plain segments, one
  after the other.
\<close>

fun plainText :: "segment \<Rightarrow> string" where
  "plainText (Plain s) = s"
| "plainText seg = []"

definition plainChars :: "segment list \<Rightarrow> string" where
  "plainChars segs = concat (map plainText segs)"

section \<open>A \<^verbatim>\<open>LIMIT\<close> clause at the end of a statement\<close>



section \<open>Routes and failures of a connection attempt\<close>


definition directRoute :: "Env \<Rightarrow> SourceConfig \<Rightarrow> string \<Rightarrow> bool" where
  "directRoute env source dsn =
     (buildDSNFromSource env source = Inr dsn \<and> \<not> truthy (src_ssh_host source)
      \<and> getConnectorForDSN env dsn \<noteq> None)"

text \<open>
  The operation an attempt is waiting for fails with the message \<open>err\<close>; an attempt whose
  \<^verbatim>\<open>connectSource\<close> has already thrown keeps its own error.
\<close>

definition failAttempt :: "Env \<Rightarrow> nat \<Rightarrow> string \<Rightarrow> World \<Rightarrow> World" where
  "failAttempt env h err w =
     (case attempts w h of
        None \<Rightarrow> w
      | Some a \<Rightarrow>
          (case att_stage a of
             AwaitTunnel dsn tunnel \<Rightarrow> tunnelSettled env h (Inl err) w
           | AwaitConnect connector \<Rightarrow> connectSettled h (Inl err) w
           | Settled outcome \<Rightarrow> w))"

definition failureOf :: "stage \<Rightarrow> string \<Rightarrow> string" where
  "failureOf st err = (case st of Settled (Inl e) \<Rightarrow> e | _ \<Rightarrow> err)"

section \<open>Events around a connection attempt\<close>




section \<open>Concrete inputs\<close>

text \<open>
  Concrete values for running the model: a connector whose \<^verbatim>\<open>executeSQL\<close> counts its
  calls, an environment with the time-series connector registered, a lazy source without
  and one with an SSH host, and the module states after registering them.
\<close>

definition demoEnv :: Env where
  "demoEnv =
     \<lparr>buildDSNFromSource = (\<lambda>source. Inr (''tdengine://'' @ src_id source)),
      parseURL = (\<lambda>dsn. Inr (''db.example'', None)),
      withTunnelEndpoint = (\<lambda>dsn port. ''tdengine://127.0.0.1''),
      getDefaultPort = (\<lambda>dsn. 6041),
      registry = [(Tdengine, \<lambda>dsn. take 11 dsn = ''tdengine://'')]\<rparr>"

definition demoConnector :: "(nat, nat) Connector" where
  "demoConnector =
     \<lparr>conn_type = Postgres, conn_sourceId = ''main'',
      conn_executeSQL = (\<lambda>sql opts db. (Suc db, Inr \<lparr>rows = [], rowCount = 0\<rparr>))\<rparr>"

definition demoSource :: SourceConfig where
  "demoSource =
     \<lparr>src_id = ''ts'', src_lazy = True, src_ssh_host = None, src_ssh_port = None,
      src_ssh_user = None, src_ssh_password = None, src_ssh_key = None,
      src_init_script = None\<rparr>"

definition demoWorld :: World where
  "demoWorld = fst (registerLazySource demoEnv 0 demoSource (fst (newConnectorManager initialWorld)))"

definition demoPending :: World where
  "demoPending = fst (ensureConnected demoEnv 0 (Some ''ts'') demoWorld)"





chapter \<open>Properties\<close>

section \<open>Identifier quoter: round trip\<close>

lemma collapseDoubled_doubleChar: "collapseDoubled q (doubleChar q s) = s"
proof (induction s)
  case Nil
  show ?case by simp
next
  case (Cons c cs)
  show ?case
  proof (cases "c = q")
    case True
    with Cons show ?thesis by simp
  next
    case False
    show ?thesis
    proof (cases cs)
      case Nil
      with False show ?thesis by simp
    next
      case (Cons d ds)
      with False Cons.IH show ?thesis by (cases "d = q") auto
    qed
  qed
qed

lemma stripDelimiters_wrap: "stripDelimiters (a # body @ [b]) = body"
  by (simp add: stripDelimiters_def)

lemma quoteIdentifier_shape:
  assumes "identifier \<noteq> []" and "\<forall>c \<in> set identifier. c \<notin> set controlChars"
  shows "\<exists>a b. quoteIdentifier identifier dbType
           = Inr (a # doubleChar (escapeChar dbType) identifier @ [b])"
  using assms by (cases dbType) auto

text \<open>
  C9. For every dialect and every non-empty identifier containing none of the
  characters the quoter rejects, \<^verbatim>\<open>quoteIdentifier\<close> succeeds, and stripping the
  outer delimiters of its result and collapsing the dialect's doubled escape character
  gives back exactly the original identifier.
\<close>

theorem quoteIdentifier_roundtrip:
  assumes "identifier \<noteq> []" and "\<forall>c \<in> set identifier. c \<notin> set controlChars"
  shows "\<exists>quoted. quoteIdentifier identifier dbType = Inr quoted
           \<and> unquoteIdentifier quoted dbType = identifier"
proof -
  from quoteIdentifier_shape [OF assms] obtain a b where
    q: "quoteIdentifier identifier dbType
          = Inr (a # doubleChar (escapeChar dbType) identifier @ [b])"
    by blast
  have "unquoteIdentifier (a # doubleChar (escapeChar dbType) identifier @ [b]) dbType
          = identifier"
    unfolding unquoteIdentifier_def stripDelimiters_wrap
    by (rule collapseDoubled_doubleChar)
  with q show ?thesis by blast
qed

theorem quoteIdentifier_roundtrip_witness:
  "quoteIdentifier ''a]b[c]'' Sqlserver = Inr ''[a]]b[c]]]''
     \<and> unquoteIdentifier ''[a]]b[c]]]'' Sqlserver = ''a]b[c]''"
  using quoteIdentifier_roundtrip [of "''a]b[c]''" Sqlserver]
  by (simp add: controlChars_def unquoteIdentifier_def stripDelimiters_def)

section \<open>Read-only classifier: the allow-lists\<close>

lemma isReadOnlySQL_leading:
  assumes "firstWord (cleanedLower sql) = kw" and "kw \<noteq> []"
  shows "isReadOnlySQL sql connectorType = (kw \<in> set (allowedKeywords connectorType))"
proof -
  from assms have "cleanedLower sql \<noteq> []" by (auto simp: firstWord_def)
  with assms(1) show ?thesis by (simp add: isReadOnlySQL_def Let_def)
qed

text \<open>
  C7 (as amended). The allow-lists are the ones of the table: the Postgres list also has
  \<^verbatim>\<open>show\<close>, and the SQL Server and time-series lists have no \<^verbatim>\<open>analyze\<close>. A statement
  whose leading keyword is \<^verbatim>\<open>pragma\<close> is read-only for SQLite and for no other dialect; a
  statement whose leading keyword is \<^verbatim>\<open>show\<close> is read-only exactly for Postgres, MySQL,
  MariaDB and the time-series dialect.
\<close>

theorem allowedKeywords_by_dialect:
  "set (allowedKeywords Postgres) = {''select'', ''with'', ''explain'', ''analyze'', ''show''}
   \<and> set (allowedKeywords Mysql)
       = {''select'', ''with'', ''explain'', ''analyze'', ''show'', ''describe'', ''desc''}
   \<and> set (allowedKeywords Mariadb)
       = {''select'', ''with'', ''explain'', ''analyze'', ''show'', ''describe'', ''desc''}
   \<and> set (allowedKeywords Sqlite) = {''select'', ''with'', ''explain'', ''analyze'', ''pragma''}
   \<and> set (allowedKeywords Sqlserver) = {''select'', ''with'', ''explain'', ''showplan''}
   \<and> set (allowedKeywords Tdengine)
       = {''select'', ''with'', ''explain'', ''show'', ''describe'', ''desc''}
   \<and> (firstWord (cleanedLower sql) = ''pragma''
        \<longrightarrow> isReadOnlySQL sql connectorType = (connectorType = Sqlite))
   \<and> (firstWord (cleanedLower sql) = ''show''
        \<longrightarrow> isReadOnlySQL sql connectorType
             = (connectorType \<in> {Postgres, Mysql, Mariadb, Tdengine}))"
proof (intro conjI impI)
  assume "firstWord (cleanedLower sql) = ''pragma''"
  then have "isReadOnlySQL sql connectorType = (''pragma'' \<in> set (allowedKeywords connectorType))"
    by (rule isReadOnlySQL_leading) simp
  then show "isReadOnlySQL sql connectorType = (connectorType = Sqlite)"
    by (cases connectorType) simp_all
next
  assume "firstWord (cleanedLower sql) = ''show''"
  then have "isReadOnlySQL sql connectorType = (''show'' \<in> set (allowedKeywords connectorType))"
    by (rule isReadOnlySQL_leading) simp
  then show "isReadOnlySQL sql connectorType
               = (connectorType \<in> {Postgres, Mysql, Mariadb, Tdengine})"
    by (cases connectorType) simp_all
qed simp_all

theorem allowedKeywords_by_dialect_witness:
  "isReadOnlySQL ''PRAGMA table_info(t)'' Sqlite
   \<and> \<not> isReadOnlySQL ''PRAGMA table_info(t)'' Mysql
   \<and> isReadOnlySQL (''-- list'' @ [CHR 0x0A] @ ''Show Tables'') Tdengine
   \<and> \<not> isReadOnlySQL (''-- list'' @ [CHR 0x0A] @ ''Show Tables'') Sqlserver"
proof -
  have p: "firstWord (cleanedLower ''PRAGMA table_info(t)'') = ''pragma''"
    by (simp add: cleanedLower_def firstWord_def trim_def toLowerCase_def toLower_def upperLetters_def lowerLetters_def isSpace_def)
  have s: "firstWord (cleanedLower (''-- list'' @ [CHR 0x0A] @ ''Show Tables'')) = ''show''"
    by (simp add: cleanedLower_def firstWord_def trim_def toLowerCase_def toLower_def upperLetters_def lowerLetters_def isSpace_def)
  show ?thesis
    using allowedKeywords_by_dialect [of "''PRAGMA table_info(t)''" Sqlite]
      allowedKeywords_by_dialect [of "''PRAGMA table_info(t)''" Mysql]
      allowedKeywords_by_dialect [of "''-- list'' @ [CHR 0x0A] @ ''Show Tables''" Tdengine]
      allowedKeywords_by_dialect [of "''-- list'' @ [CHR 0x0A] @ ''Show Tables''" Sqlserver]
      p s
    by simp
qed

text \<open>
  The claim as first stated fails: \<^verbatim>\<open>SHOW TABLES\<close> is read-only for Postgres, and
  \<^verbatim>\<open>analyze\<close> is not on the SQL Server and time-series lists.
\<close>

theorem show_readonly_counterexample:
  "isReadOnlySQL ''SHOW TABLES'' Postgres
   \<and> ''show'' \<in> set (allowedKeywords Postgres)
   \<and> ''analyze'' \<notin> set (allowedKeywords Sqlserver)
   \<and> ''analyze'' \<notin> set (allowedKeywords Tdengine)
   \<and> \<not> isReadOnlySQL ''ANALYZE t'' Tdengine"
  by (simp add: isReadOnlySQL_def cleanedLower_def firstWord_def trim_def toLowerCase_def
      toLower_def upperLetters_def lowerLetters_def isSpace_def)

section \<open>Placeholders inside string literals and comments\<close>

lemma strip_plain_prefix:
  "plainBefore pre s \<Longrightarrow> stripCommentsAndStrings (pre @ s) = pre @ stripCommentsAndStrings s"
  by (induction pre) auto

lemma skipQuoted_closing:
  "escapedBody q body \<Longrightarrow> notStartingWith q rest \<Longrightarrow> skipQuoted q (body @ q # rest) = rest"
proof (induction q body rule: escapedBody.induct)
  case (1 q)
  then show ?case by (cases rest) (auto simp: notStartingWith_def)
next
  case (2 q c)
  then show ?case by (cases rest) (auto simp: notStartingWith_def)
next
  case (3 q c d cs)
  then show ?case by (auto split: if_splits)
qed

lemma skipLineComment_body:
  "CHR 0x0A \<notin> set body \<Longrightarrow> rest = [] \<or> hd rest = CHR 0x0A
     \<Longrightarrow> skipLineComment (body @ rest) = rest"
  by (induction body) (auto, cases rest, auto)

lemma skipBlockComment_body:
  "\<not> hasBlockEnd body \<Longrightarrow> skipBlockComment (body @ CHR ''*'' # CHR ''/'' # rest) = rest"
  by (induction body rule: hasBlockEnd.induct) auto

lemma strip_segment:
  "segmentOK seg rest \<Longrightarrow>
     stripCommentsAndStrings (segmentText seg @ rest) = outsideText seg @ stripCommentsAndStrings rest"
proof (cases seg)
  case (Plain s)
  then show "segmentOK seg rest \<Longrightarrow> ?thesis" by (simp add: strip_plain_prefix)
next
  case (SingleQuoted body)
  then show "segmentOK seg rest \<Longrightarrow> ?thesis" by (simp add: skipQuoted_closing)
next
  case (DoubleQuoted body)
  then show "segmentOK seg rest \<Longrightarrow> ?thesis" by (simp add: skipQuoted_closing)
next
  case (LineComment body)
  then show "segmentOK seg rest \<Longrightarrow> ?thesis" by (simp add: skipLineComment_body)
next
  case (BlockComment body)
  assume "segmentOK seg rest"
  with BlockComment have "skipBlockComment (body @ CHR ''*'' # CHR ''/'' # rest) = rest"
    by (simp add: skipBlockComment_body)
  with BlockComment show ?thesis by simp
qed

lemma strip_render: "wellFormed segs \<Longrightarrow> stripCommentsAndStrings (render segs) = blanked segs"
  by (induction segs) (simp_all add: render_def blanked_def strip_segment)

lemma detect_cleaned:
  "stripCommentsAndStrings a = stripCommentsAndStrings b \<Longrightarrow>
     detectParameterStyle a = detectParameterStyle b \<and> countParameters a = countParameters b"
  by (simp add: detectParameterStyle_def countParameters_def)

lemma numberedMatches_none: "CHR ''$'' \<notin> set s \<Longrightarrow> numberedMatches s = []"
proof (induction s)
  case Nil
  show ?case by simp
next
  case (Cons a s)
  then have "a \<noteq> CHR ''$''" and "CHR ''$'' \<notin> set s" by auto
  with Cons.IH show ?case by simp
qed

lemma namedMatches_none: "CHR ''@'' \<notin> set s \<Longrightarrow> namedMatches s = []"
proof (induction s)
  case Nil
  show ?case by simp
next
  case (Cons a s)
  then have "a \<noteq> CHR ''@''" and "CHR ''@'' \<notin> set s" by auto
  with Cons.IH show ?case by simp
qed

lemma blanked_Cons: "blanked (seg # segs) = outsideText seg @ blanked segs"
  by (simp add: blanked_def)

lemma plainChars_Cons: "plainChars (seg # segs) = plainText seg @ plainChars segs"
  by (simp add: plainChars_def)

lemma outsideText_filter:
  "c \<noteq> CHR '' '' \<Longrightarrow> filter (\<lambda>x. x = c) (outsideText seg) = filter (\<lambda>x. x = c) (plainText seg)"
  by (cases seg) simp_all

lemma blanked_filter:
  "c \<noteq> CHR '' '' \<Longrightarrow> filter (\<lambda>x. x = c) (blanked segs) = filter (\<lambda>x. x = c) (plainChars segs)"
proof (induction segs)
  case Nil
  show ?case by (simp add: blanked_def plainChars_def)
next
  case (Cons seg segs)
  from Cons.prems
  have "filter (\<lambda>x. x = c) (blanked segs) = filter (\<lambda>x. x = c) (plainChars segs)"
    by (rule Cons.IH)
  moreover from Cons.prems
  have "filter (\<lambda>x. x = c) (outsideText seg) = filter (\<lambda>x. x = c) (plainText seg)"
    by (rule outsideText_filter)
  ultimately show ?case by (simp add: blanked_Cons plainChars_Cons)
qed

lemma blanked_member:
  assumes "c \<noteq> CHR '' ''"
  shows "(c \<in> set (blanked segs)) = (c \<in> set (plainChars segs))"
proof -
  have "set (filter (\<lambda>x. x = c) (blanked segs)) = set (filter (\<lambda>x. x = c) (plainChars segs))"
    using assms blanked_filter [of c segs] by simp
  then have "{x \<in> set (blanked segs). x = c} = {x \<in> set (plainChars segs). x = c}"
    by (simp only: set_filter)
  then show ?thesis by blast
qed

text \<open>
  C5. Placeholders that occur only inside string literals or comments are neither detected
  nor counted. For every statement made of plain text, complete literals and complete
  comments: if the plain text contains none of the characters \<^verbatim>\<open>$\<close>, \<^verbatim>\<open>@\<close> and \<^verbatim>\<open>?\<close>, no
  style is detected, the count is 0 and the style check passes for every dialect,
  whatever the literals and comments contain; if the plain text contains \<^verbatim>\<open>?\<close> but neither
  \<^verbatim>\<open>$\<close> nor \<^verbatim>\<open>@\<close>, the style is positional and the count is the number of \<^verbatim>\<open>?\<close> in the
  plain text; two statements that agree outside of their literals and comments have the
  same style and the same count. In particular, for
  \<^verbatim>\<open>SELECT 'price is $1' FROM t WHERE id = $1\<close> the detected style is numbered (the style
  of the Postgres dialect) and the count is 1.
\<close>

theorem hidden_placeholders_ignored:
  "(wellFormed segs \<and> CHR ''$'' \<notin> set (plainChars segs) \<and> CHR ''@'' \<notin> set (plainChars segs)
      \<and> CHR ''?'' \<notin> set (plainChars segs)
      \<longrightarrow> detectParameterStyle (render segs) = NoStyle
          \<and> countParameters (render segs) = Inr 0
          \<and> validateParameterStyle (render segs) connectorType = Inr ())
   \<and> (wellFormed segs \<and> CHR ''$'' \<notin> set (plainChars segs) \<and> CHR ''@'' \<notin> set (plainChars segs)
      \<and> CHR ''?'' \<in> set (plainChars segs)
      \<longrightarrow> detectParameterStyle (render segs) = Positional
          \<and> countParameters (render segs)
              = Inr (length (filter (\<lambda>c. c = CHR ''?'') (plainChars segs))))
   \<and> (wellFormed segs \<and> wellFormed segs' \<and> blanked segs = blanked segs'
      \<longrightarrow> detectParameterStyle (render segs) = detectParameterStyle (render segs')
          \<and> countParameters (render segs) = countParameters (render segs'))
   \<and> detectParameterStyle ''SELECT 'price is $1' FROM t WHERE id = $1'' = Numbered
   \<and> countParameters ''SELECT 'price is $1' FROM t WHERE id = $1'' = Inr 1
   \<and> validateParameterStyle ''SELECT 'price is $1' FROM t WHERE id = $1'' Postgres = Inr ()"
proof -
  have none: "detectParameterStyle (render segs) = NoStyle
      \<and> countParameters (render segs) = Inr 0
      \<and> validateParameterStyle (render segs) connectorType = Inr ()"
    if a: "wellFormed segs \<and> CHR ''$'' \<notin> set (plainChars segs)
         \<and> CHR ''@'' \<notin> set (plainChars segs) \<and> CHR ''?'' \<notin> set (plainChars segs)"
  proof -
    from a have s: "stripCommentsAndStrings (render segs) = blanked segs"
      by (simp add: strip_render)
    from a have "CHR ''$'' \<notin> set (blanked segs)" and "CHR ''@'' \<notin> set (blanked segs)"
      and q: "CHR ''?'' \<notin> set (blanked segs)"
      by (simp_all add: blanked_member)
    then have n: "numberedMatches (blanked segs) = []" and m: "namedMatches (blanked segs) = []"
      by (simp_all add: numberedMatches_none namedMatches_none)
    from n m q have d: "detectParameterStyle (render segs) = NoStyle"
      by (simp add: detectParameterStyle_def s)
    from d have c: "countParameters (render segs) = Inr 0"
      by (simp add: countParameters_def)
    from d have v: "validateParameterStyle (render segs) connectorType = Inr ()"
      by (simp add: validateParameterStyle_def)
    from d c v show ?thesis by blast
  qed
  have pos: "detectParameterStyle (render segs) = Positional
      \<and> countParameters (render segs)
          = Inr (length (filter (\<lambda>c. c = CHR ''?'') (plainChars segs)))"
    if a: "wellFormed segs \<and> CHR ''$'' \<notin> set (plainChars segs)
         \<and> CHR ''@'' \<notin> set (plainChars segs) \<and> CHR ''?'' \<in> set (plainChars segs)"
  proof -
    from a have s: "stripCommentsAndStrings (render segs) = blanked segs"
      by (simp add: strip_render)
    from a have "CHR ''$'' \<notin> set (blanked segs)" and "CHR ''@'' \<notin> set (blanked segs)"
      and q: "CHR ''?'' \<in> set (blanked segs)"
      by (simp_all add: blanked_member)
    then have n: "numberedMatches (blanked segs) = []" and m: "namedMatches (blanked segs) = []"
      by (simp_all add: numberedMatches_none namedMatches_none)
    from n m q have d: "detectParameterStyle (render segs) = Positional"
      by (simp add: detectParameterStyle_def s)
    have f: "filter (\<lambda>c. c = CHR ''?'') (blanked segs) = filter (\<lambda>c. c = CHR ''?'') (plainChars segs)"
      by (rule blanked_filter) simp
    from d have "countParameters (render segs)
          = Inr (length (filter (\<lambda>c. c = CHR ''?'') (blanked segs)))"
      by (simp add: countParameters_def s)
    with f d show ?thesis by simp
  qed
  have same: "detectParameterStyle (render segs) = detectParameterStyle (render segs')
      \<and> countParameters (render segs) = countParameters (render segs')"
    if a: "wellFormed segs \<and> wellFormed segs' \<and> blanked segs = blanked segs'"
  proof -
    from a have "stripCommentsAndStrings (render segs) = stripCommentsAndStrings (render segs')"
      by (simp add: strip_render)
    then show ?thesis by (rule detect_cleaned)
  qed
  have e1: "detectParameterStyle ''SELECT 'price is $1' FROM t WHERE id = $1'' = Numbered"
    by code_simp
  have e2: "countParameters ''SELECT 'price is $1' FROM t WHERE id = $1'' = Inr 1"
    by code_simp
  have e3: "validateParameterStyle ''SELECT 'price is $1' FROM t WHERE id = $1'' Postgres = Inr ()"
    by code_simp
  from none pos same e1 e2 e3 show ?thesis by blast
qed

theorem hidden_placeholders_ignored_witness:
  "detectParameterStyle ''SELECT 'price is $1' AS msg FROM products'' = NoStyle
   \<and> countParameters ''SELECT 'price is $1' AS msg FROM products'' = Inr 0
   \<and> validateParameterStyle ''SELECT 'price is $1' AS msg FROM products'' Postgres = Inr ()
   \<and> detectParameterStyle ''SELECT 'a $2' + /* @p3 */ x FROM t WHERE id = ? AND b = ? -- or $4''
       = Positional
   \<and> countParameters ''SELECT 'a $2' + /* @p3 */ x FROM t WHERE id = ? AND b = ? -- or $4''
       = Inr 2
   \<and> countParameters (''SELECT 'a $2 ?' + /* $3 */ x FROM t WHERE id = $1 -- or @p4'')
       = countParameters (''SELECT 'x' + /*x*/ x FROM t WHERE id = $1 --x'')
   \<and> detectParameterStyle (''SELECT 'a $2 ?' + /* $3 */ x FROM t WHERE id = $1 -- or @p4'')
       = detectParameterStyle (''SELECT 'x' + /*x*/ x FROM t WHERE id = $1 --x'')"
proof -
  let ?none = "[Plain ''SELECT '', SingleQuoted ''price is $1'', Plain '' AS msg FROM products'']"
  let ?pos = "[Plain ''SELECT '', SingleQuoted ''a $2'', Plain '' + '', BlockComment '' @p3 '',
               Plain '' x FROM t WHERE id = ? AND b = ? '', LineComment '' or $4'']"
  let ?segs = "[Plain ''SELECT '', SingleQuoted ''a $2 ?'', Plain '' + '', BlockComment '' $3 '',
                Plain '' x FROM t WHERE id = $1 '', LineComment '' or @p4'']"
  let ?segs' = "[Plain ''SELECT '', SingleQuoted ''x'', Plain '' + '', BlockComment ''x'',
                Plain '' x FROM t WHERE id = $1 '', LineComment ''x'']"
  have w1: "wellFormed ?none \<and> CHR ''$'' \<notin> set (plainChars ?none)
      \<and> CHR ''@'' \<notin> set (plainChars ?none) \<and> CHR ''?'' \<notin> set (plainChars ?none)"
    by (simp add: plainChars_def notStartingWith_def)
  have r1: "render ?none = ''SELECT 'price is $1' AS msg FROM products''"
    by (simp add: render_def)
  have w2: "wellFormed ?pos \<and> CHR ''$'' \<notin> set (plainChars ?pos)
      \<and> CHR ''@'' \<notin> set (plainChars ?pos) \<and> CHR ''?'' \<in> set (plainChars ?pos)"
    by (simp add: plainChars_def notStartingWith_def)
  have r2: "render ?pos = ''SELECT 'a $2' + /* @p3 */ x FROM t WHERE id = ? AND b = ? -- or $4''"
    by (simp add: render_def)
  have l2: "length (filter (\<lambda>c. c = CHR ''?'') (plainChars ?pos)) = 2"
    by (simp add: plainChars_def)
  have w3: "wellFormed ?segs \<and> wellFormed ?segs' \<and> blanked ?segs = blanked ?segs'"
    by (simp add: blanked_def notStartingWith_def)
  have r3: "render ?segs = ''SELECT 'a $2 ?' + /* $3 */ x FROM t WHERE id = $1 -- or @p4''"
    "render ?segs' = ''SELECT 'x' + /*x*/ x FROM t WHERE id = $1 --x''"
    by (simp_all add: render_def)
  from hidden_placeholders_ignored [where segs = ?none and connectorType = Postgres] w1 r1
  have a: "detectParameterStyle ''SELECT 'price is $1' AS msg FROM products'' = NoStyle
     \<and> countParameters ''SELECT 'price is $1' AS msg FROM products'' = Inr 0
     \<and> validateParameterStyle ''SELECT 'price is $1' AS msg FROM products'' Postgres = Inr ()"
    by simp
  from hidden_placeholders_ignored [where segs = ?pos] w2 r2 l2
  have b: "detectParameterStyle ''SELECT 'a $2' + /* @p3 */ x FROM t WHERE id = ? AND b = ? -- or $4''
       = Positional
     \<and> countParameters ''SELECT 'a $2' + /* @p3 */ x FROM t WHERE id = ? AND b = ? -- or $4''
       = Inr 2"
    by simp
  from hidden_placeholders_ignored [where segs = ?segs and segs' = ?segs'] w3 r3
  have c: "countParameters (''SELECT 'a $2 ?' + /* $3 */ x FROM t WHERE id = $1 -- or @p4'')
       = countParameters (''SELECT 'x' + /*x*/ x FROM t WHERE id = $1 --x'')
     \<and> detectParameterStyle (''SELECT 'a $2 ?' + /* $3 */ x FROM t WHERE id = $1 -- or @p4'')
       = detectParameterStyle (''SELECT 'x' + /*x*/ x FROM t WHERE id = $1 --x'')"
    by simp
  from a b c show ?thesis by blast
qed

section \<open>Sequential parameter indices\<close>

text \<open>The check loop finds the least index from 1 to the maximum that is not referenced.\<close>

lemma firstMissing_None_iff:
  "firstMissing uniqueIndices maxIndex = None
     \<longleftrightarrow> (\<forall>i. 1 \<le> i \<and> i \<le> maxIndex \<longrightarrow> i \<in> set uniqueIndices)"
  by (auto simp: firstMissing_def find_None_iff)

lemma firstMissing_Some_least:
  assumes "firstMissing uniqueIndices maxIndex = Some i"
  shows "1 \<le> i \<and> i \<le> maxIndex \<and> i \<notin> set uniqueIndices
         \<and> (\<forall>j. 1 \<le> j \<and> j < i \<longrightarrow> j \<in> set uniqueIndices)"
proof -
  from assms obtain k where k: "k < length [1 ..< Suc maxIndex]"
    and p: "[1 ..< Suc maxIndex] ! k \<notin> set uniqueIndices"
    and i: "i = [1 ..< Suc maxIndex] ! k"
    and l: "\<forall>j<k. [1 ..< Suc maxIndex] ! j \<in> set uniqueIndices"
    unfolding firstMissing_def find_Some_iff by blast
  from k i have iv: "i = 1 + k" by (simp del: upt_Suc)
  have "\<forall>j. 1 \<le> j \<and> j < i \<longrightarrow> j \<in> set uniqueIndices"
  proof (intro allI impI)
    fix j assume j: "1 \<le> j \<and> j < i"
    with iv have "j - 1 < k" by arith
    with l have "[1 ..< Suc maxIndex] ! (j - 1) \<in> set uniqueIndices" by blast
    moreover from j iv k have "[1 ..< Suc maxIndex] ! (j - 1) = j" by (simp del: upt_Suc)
    ultimately show "j \<in> set uniqueIndices" by simp
  qed
  moreover from k iv have "1 \<le> i \<and> i \<le> maxIndex" by (simp del: upt_Suc)
  moreover from p i have "i \<notin> set uniqueIndices" by simp
  ultimately show ?thesis by blast
qed

text \<open>
  C6. The claim lets \<^verbatim>\<open>countParameters\<close> return the maximum index only when the
  referenced indices are exactly 1 up to the maximum. The loop starts at 1 and never looks
  at index 0: a statement that references \<^verbatim>\<open>$0\<close> and \<^verbatim>\<open>$1\<close> is accepted with count 1
  although its indices are 0 and 1, and a statement that references only \<^verbatim>\<open>$0\<close> is
  accepted with count 0; the same holds for \<^verbatim>\<open>@p0\<close>. A gap above 1 is reported with the
  first missing index.
\<close>

theorem index_zero_accepted:
  "countParameters ''SELECT * FROM t WHERE a = $0 AND b = $1'' = Inr 1
   \<and> map parseInt (numberedMatches (stripCommentsAndStrings
         ''SELECT * FROM t WHERE a = $0 AND b = $1'')) = [0, 1]
   \<and> countParameters ''SELECT * FROM t WHERE a = $0'' = Inr 0
   \<and> countParameters ''SELECT * FROM t WHERE a = @p0 AND b = @p1'' = Inr 1
   \<and> countParameters ''SELECT * FROM t WHERE a = $1 AND b = $3''
       = Inl (NonSequentialNumbered [1, 3] 2)"
  by code_simp

section \<open>The read-only gate of the handler\<close>

lemma areAllStatementsReadOnly_iff:
  "areAllStatementsReadOnly sql connectorType
     = (\<forall>statement \<in> set (splitSQLStatements sql). isReadOnlySQL statement connectorType)"
  by (simp add: areAllStatementsReadOnly_def list_all_iff)

text \<open>
  What the gate does, in terms of the pieces that \<^verbatim>\<open>splitSQLStatements\<close> cuts: when the
  connection stage succeeded and the tool's configuration has \<^verbatim>\<open>readonly = true\<close>, a piece
  that is not read-only for the connector's dialect yields the error code
  \<^verbatim>\<open>READONLY_VIOLATION\<close> without a call of \<^verbatim>\<open>connector.executeSQL\<close>; if every piece is
  read-only, \<^verbatim>\<open>connector.executeSQL\<close> is called exactly once, with the whole batch.
\<close>

lemma readonly_gate_fragments:
  assumes "ensured = Inr u" and "current = Inr connector"
    and "Option.bind (toolConfigOf (conn_sourceId connector)) tc_readonly = Some True"
  shows
    "((\<exists>statement \<in> set (splitSQLStatements sql).
          \<not> isReadOnlySQL statement (conn_type connector))
        \<longrightarrow> response (executeSqlToolHandler ensured current toolConfigOf eff sql db)
              = ToolError (readonlyMessage (conn_type connector)) ''READONLY_VIOLATION''
          \<and> executeCalls (executeSqlToolHandler ensured current toolConfigOf eff sql db) = []
          \<and> database (executeSqlToolHandler ensured current toolConfigOf eff sql db) = db)
     \<and> ((\<forall>statement \<in> set (splitSQLStatements sql).
            isReadOnlySQL statement (conn_type connector))
        \<longrightarrow> executeCalls (executeSqlToolHandler ensured current toolConfigOf eff sql db)
              = [(sql, \<lparr>opt_maxRows = Option.bind (toolConfigOf (conn_sourceId connector)) tc_max_rows,
                        opt_readonly = Some True\<rparr>)]
          \<and> database (executeSqlToolHandler ensured current toolConfigOf eff sql db)
              = fst (conn_executeSQL connector sql
                      \<lparr>opt_maxRows = Option.bind (toolConfigOf (conn_sourceId connector)) tc_max_rows,
                       opt_readonly = Some True\<rparr> db)
          \<and> (\<forall>msg. response (executeSqlToolHandler ensured current toolConfigOf eff sql db)
                \<noteq> ToolError msg ''READONLY_VIOLATION''))"
proof (intro conjI impI)
  assume v: "\<exists>statement \<in> set (splitSQLStatements sql).
               \<not> isReadOnlySQL statement (conn_type connector)"
  then have n: "\<not> areAllStatementsReadOnly sql (conn_type connector)"
    by (simp add: areAllStatementsReadOnly_iff)
  from assms n
  show "response (executeSqlToolHandler ensured current toolConfigOf eff sql db)
          = ToolError (readonlyMessage (conn_type connector)) ''READONLY_VIOLATION''"
    and "executeCalls (executeSqlToolHandler ensured current toolConfigOf eff sql db) = []"
    and "database (executeSqlToolHandler ensured current toolConfigOf eff sql db) = db"
    by (simp_all add: executeSqlToolHandler_def)
next
  assume a: "\<forall>statement \<in> set (splitSQLStatements sql).
               isReadOnlySQL statement (conn_type connector)"
  then have y: "areAllStatementsReadOnly sql (conn_type connector)"
    by (simp add: areAllStatementsReadOnly_iff)
  let ?opts = "\<lparr>opt_maxRows = Option.bind (toolConfigOf (conn_sourceId connector)) tc_max_rows,
                 opt_readonly = Some True\<rparr>"
  obtain db' res where r: "conn_executeSQL connector sql ?opts db = (db', res)"
    by (cases "conn_executeSQL connector sql ?opts db") auto
  from assms y r
  show "executeCalls (executeSqlToolHandler ensured current toolConfigOf eff sql db)
          = [(sql, ?opts)]"
    and "database (executeSqlToolHandler ensured current toolConfigOf eff sql db)
          = fst (conn_executeSQL connector sql ?opts db)"
    and "\<forall>msg. response (executeSqlToolHandler ensured current toolConfigOf eff sql db)
           \<noteq> ToolError msg ''READONLY_VIOLATION''"
    by (cases res; simp add: executeSqlToolHandler_def)+
qed

text \<open>
  C1. The claim speaks of the statements of the batch; the gate judges the pieces between
  semicolons, which are not the statements when a semicolon stands in a comment or in a
  string. The batch \<^verbatim>\<open>-- ; select\<close>, line feed, \<^verbatim>\<open>DROP TABLE t\<close> has its only semicolon in a
  line comment: it is the one statement \<^verbatim>\<open>DROP TABLE t\<close>, which is not read-only, yet
  both pieces pass the check and the handler, with \<^verbatim>\<open>readonly = true\<close>, calls
  \<^verbatim>\<open>connector.executeSQL\<close> with the batch and reports success. In the other direction the
  one read-only statement \<^verbatim>\<open>SELECT 'a;b' AS x\<close> is answered with \<^verbatim>\<open>READONLY_VIOLATION\<close>
  and is not passed on.
\<close>

theorem readonly_gate_split_defect:
  "stripCommentsAndStrings (''-- ; select'' @ CHR 0x0A # ''DROP TABLE t'')
     = '' '' @ CHR 0x0A # ''DROP TABLE t''
   \<and> \<not> isReadOnlySQL (''-- ; select'' @ CHR 0x0A # ''DROP TABLE t'') Postgres
   \<and> splitSQLStatements (''-- ; select'' @ CHR 0x0A # ''DROP TABLE t'')
       = [''--'', ''select'' @ CHR 0x0A # ''DROP TABLE t'']
   \<and> areAllStatementsReadOnly (''-- ; select'' @ CHR 0x0A # ''DROP TABLE t'') Postgres
   \<and> executeCalls (executeSqlToolHandler (Inr ()) (Inr demoConnector)
         (\<lambda>i. Some \<lparr>tc_readonly = Some True, tc_max_rows = Some 5\<rparr>) ''main''
         (''-- ; select'' @ CHR 0x0A # ''DROP TABLE t'') 0)
       = [(''-- ; select'' @ CHR 0x0A # ''DROP TABLE t'',
           \<lparr>opt_maxRows = Some 5, opt_readonly = Some True\<rparr>)]
   \<and> response (executeSqlToolHandler (Inr ()) (Inr demoConnector)
         (\<lambda>i. Some \<lparr>tc_readonly = Some True, tc_max_rows = Some 5\<rparr>) ''main''
         (''-- ; select'' @ CHR 0x0A # ''DROP TABLE t'') 0)
       = ToolSuccess [] 0 ''main''
   \<and> database (executeSqlToolHandler (Inr ()) (Inr demoConnector)
         (\<lambda>i. Some \<lparr>tc_readonly = Some True, tc_max_rows = Some 5\<rparr>) ''main''
         (''-- ; select'' @ CHR 0x0A # ''DROP TABLE t'') 0)
       = 1
   \<and> stripCommentsAndStrings ''SELECT 'a;b' AS x'' = ''SELECT   AS x''
   \<and> isReadOnlySQL ''SELECT 'a;b' AS x'' Postgres
   \<and> response (executeSqlToolHandler (Inr ()) (Inr demoConnector)
         (\<lambda>i. Some \<lparr>tc_readonly = Some True, tc_max_rows = Some 5\<rparr>) ''main''
         ''SELECT 'a;b' AS x'' 0)
       = ToolError (readonlyMessage Postgres) ''READONLY_VIOLATION''
   \<and> executeCalls (executeSqlToolHandler (Inr ()) (Inr demoConnector)
         (\<lambda>i. Some \<lparr>tc_readonly = Some True, tc_max_rows = Some 5\<rparr>) ''main''
         ''SELECT 'a;b' AS x'' 0)
       = []"
  by code_simp

section \<open>Statement splitting at semicolons inside literals\<close>

text \<open>
  C4. The claim asks for statement boundaries at top-level semicolons only. Both
  \<^verbatim>\<open>splitSQLStatements\<close> and the connector's \<^verbatim>\<open>executeSQL\<close> cut at every semicolon: the
  single read-only statement \<^verbatim>\<open>SELECT 'a;b' AS x\<close> is cut inside its string literal and
  then fails the batch check, and the connector sends \<^verbatim>\<open>INSERT INTO t VALUES ('a;b')\<close> as
  two fragments.
\<close>

theorem split_inside_string_literal:
  "splitSQLStatements ''SELECT 'a;b' AS x'' = [''SELECT 'a'', ''b' AS x'']
   \<and> isReadOnlySQL ''SELECT 'a;b' AS x'' Postgres
   \<and> \<not> areAllStatementsReadOnly ''SELECT 'a;b' AS x'' Postgres
   \<and> tdengineStatements ''INSERT INTO t VALUES ('a;b')''
       = [''INSERT INTO t VALUES ('a'', ''b')'']
   \<and> fst (snd (tdengine_executeSQL True
         (\<lambda>s (db::nat). (Suc db, Inr \<lparr>td_normalizedRows = ([]::nat list), td_rowsField = None,
                                      td_affectedRows = 0\<rparr>))
         ''INSERT INTO t VALUES ('a;b')'' \<lparr>opt_maxRows = None, opt_readonly = None\<rparr> 0 0))
       = [''INSERT INTO t VALUES ('a'', ''b')'']"
  by code_simp

section \<open>Row limiter: the minimum of the limits\<close>



















section \<open>Connector manager: one attempt per source\<close>

lemma updateManager_fields:
  "managers (updateManager r f w) = (managers w)(r := f (managers w r))"
  "attempts (updateManager r f w) = attempts w"
  "nextPromise (updateManager r f w) = nextPromise w"
  "nextInstance (updateManager r f w) = nextInstance w"
  "nextTunnel (updateManager r f w) = nextTunnel w"
  "connectCalls (updateManager r f w) = connectCalls w"
  "tunnelCalls (updateManager r f w) = tunnelCalls w"
  "managerInstance (updateManager r f w) = managerInstance w"
  "managerCount (updateManager r f w) = managerCount w"
  by (simp_all add: updateManager_def)

lemma connectSource_connect_frame:
  assumes "connectSource_connect env source dsn w = (w', st)"
  shows "managers w' = managers w \<and> attempts w' = attempts w \<and> nextPromise w' = nextPromise w
         \<and> managerInstance w' = managerInstance w \<and> tunnelCalls w' = tunnelCalls w
         \<and> nextTunnel w' = nextTunnel w"
  using assms by (auto simp: connectSource_connect_def Let_def split: option.splits)

lemma connectSource_start_frame:
  assumes "connectSource_start env source w = (w', st)"
  shows "managers w' = managers w \<and> attempts w' = attempts w \<and> nextPromise w' = nextPromise w
         \<and> managerInstance w' = managerInstance w"
proof (cases "buildDSNFromSource env source")
  case (Inl e)
  with assms show ?thesis by (simp add: connectSource_start_def)
next
  case (Inr dsn)
  show ?thesis
  proof (cases "truthy (src_ssh_host source)")
    case False
    with Inr assms have "connectSource_connect env source dsn w = (w', st)"
      by (simp add: connectSource_start_def)
    then show ?thesis by (simp add: connectSource_connect_frame)
  next
    case True
    with Inr assms show ?thesis
      by (auto simp: connectSource_start_def Let_def split: if_splits sum.splits option.splits)
  qed
qed


lemma ensureConnected_fresh:
  assumes "k \<noteq> []"
    and "connectors (managers w r) k = None"
    and "lazySources (managers w r) k = Some source"
    and "pendingConnections (managers w r) k = None"
    and "connectSource_start env source w = (w1, st)"
  shows "ensureConnected env r (Some k) w =
           (updateManager r (\<lambda>m. m\<lparr>pendingConnections := (pendingConnections m)(k \<mapsto> nextPromise w)\<rparr>)
              (w1\<lparr>attempts := (attempts w1)(nextPromise w \<mapsto>
                       \<lparr>att_manager = r, att_sourceId = k, att_source = source, att_stage = st\<rparr>),
                   nextPromise := Suc (nextPromise w)\<rparr>),
            Awaits (nextPromise w))"
proof -
  from assms(5) have "nextPromise w1 = nextPromise w"
    by (simp add: connectSource_start_frame)
  with assms show ?thesis
    by (simp add: ensureConnected_def effectiveId_def truthy_def Let_def)
qed


lemma start_direct:
  assumes "directRoute env source dsn"
  shows "connectSource_start env source w =
           (w\<lparr>nextInstance := Suc (nextInstance w),
              connectCalls := connectCalls w @ [(nextInstance w, src_id source, dsn)]\<rparr>,
            AwaitConnect (nextInstance w))"
  using assms
  by (auto simp: directRoute_def connectSource_start_def connectSource_connect_def Let_def)


lemma demoWorld_fields:
  "connectors (managers demoWorld 0) ''ts'' = None"
  "lazySources (managers demoWorld 0) ''ts'' = Some demoSource"
  "pendingConnections (managers demoWorld 0) ''ts'' = None"
  "nextPromise demoWorld = 0" "nextInstance demoWorld = 0" "connectCalls demoWorld = []"
  by (simp_all add: demoWorld_def registerLazySource_def newConnectorManager_def initialWorld_def
      demoEnv_def demoSource_def updateManager_def emptyManager_def Let_def)

lemma demo_direct: "directRoute demoEnv demoSource ''tdengine://ts''"
  by (simp add: directRoute_def demoEnv_def demoSource_def getConnectorForDSN_def truthy_def)

















section \<open>Connector manager: a failed attempt\<close>

lemma failAttempt_settles:
  assumes "attempts w h = Some a" and "att_stage a \<noteq> Settled (Inr ())"
  shows "attempts (failAttempt env h err w) h
           = Some (a\<lparr>att_stage := Settled (Inl (failureOf (att_stage a) err))\<rparr>)
         \<and> managers (failAttempt env h err w) = managers w
         \<and> connectCalls (failAttempt env h err w) = connectCalls w
         \<and> nextInstance (failAttempt env h err w) = nextInstance w
         \<and> nextPromise (failAttempt env h err w) = nextPromise w"
proof (cases "att_stage a")
  case (AwaitTunnel dsn tunnel)
  with assms show ?thesis
    by (simp add: failAttempt_def tunnelSettled_def failureOf_def)
next
  case (AwaitConnect connector)
  with assms show ?thesis
    by (simp add: failAttempt_def connectSettled_def failureOf_def)
next
  case (Settled outcome)
  with assms obtain e where "outcome = Inl e" by (cases outcome) auto
  with Settled assms show ?thesis
    by (simp add: failAttempt_def failureOf_def)
qed

lemma demoPending_fields:
  "attempts demoPending 0
     = Some \<lparr>att_manager = 0, att_sourceId = ''ts'', att_source = demoSource,
             att_stage = AwaitConnect 0\<rparr>"
  "connectors (managers demoPending 0) ''ts'' = None"
  "lazySources (managers demoPending 0) ''ts'' = Some demoSource"
  "pendingConnections (managers demoPending 0) ''ts'' = Some 0"
  "nextPromise demoPending = 1"
proof -
  have s: "connectSource_start demoEnv demoSource demoWorld =
             (demoWorld\<lparr>nextInstance := Suc (nextInstance demoWorld),
                connectCalls := connectCalls demoWorld
                  @ [(nextInstance demoWorld, src_id demoSource, ''tdengine://ts'')]\<rparr>,
              AwaitConnect (nextInstance demoWorld))"
    by (rule start_direct) (rule demo_direct)
  have k: "''ts'' \<noteq> []" by simp
  note f = ensureConnected_fresh
             [OF k demoWorld_fields(1) demoWorld_fields(2) demoWorld_fields(3) s]
  show "attempts demoPending 0
     = Some \<lparr>att_manager = 0, att_sourceId = ''ts'', att_source = demoSource,
             att_stage = AwaitConnect 0\<rparr>"
    and "connectors (managers demoPending 0) ''ts'' = None"
    and "lazySources (managers demoPending 0) ''ts'' = Some demoSource"
    and "pendingConnections (managers demoPending 0) ''ts'' = Some 0"
    and "nextPromise demoPending = 1"
    by (simp_all add: demoPending_def f updateManager_fields demoWorld_fields)
qed

text \<open>
  C8. Let an attempt for a registered lazy source be in flight and fail (at the tunnel,
  at \<^verbatim>\<open>connect\<close>, or in \<^verbatim>\<open>connectSource\<close> itself). When the promise is resumed, it settles
  with the error, which is what its callers receive; the entry in \<^verbatim>\<open>pendingConnections\<close>
  is removed; the source is still in \<^verbatim>\<open>lazySources\<close> and not in \<^verbatim>\<open>connectors\<close>; and a
  later \<^verbatim>\<open>ensureConnected\<close> starts a new attempt with a new promise (on the direct route
  with a new call of \<^verbatim>\<open>connect\<close>). After a successful \<^verbatim>\<open>connect\<close> the entry in
  \<^verbatim>\<open>pendingConnections\<close> is removed as well.
\<close>

theorem failed_attempt_stays_lazy:
  assumes k: "k \<noteq> []"
    and a: "attempts w h = Some a"
    and am: "att_manager a = r" and ak: "att_sourceId a = k"
    and st: "att_stage a \<noteq> Settled (Inr ())"
    and l: "lazySources (managers w r) k = Some source"
    and c: "connectors (managers w r) k = None"
    and p: "pendingConnections (managers w r) k = Some h"
    and res: "resumeAttempt h (failAttempt env h err w) = (w', out)"
  shows "out = Some (Inl (failureOf (att_stage a) err))
     \<and> pendingConnections (managers w' r) k = None
     \<and> lazySources (managers w' r) k = Some source
     \<and> connectors (managers w' r) k = None
     \<and> attempts w' h = None
     \<and> connectCalls w' = connectCalls w
     \<and> snd (ensureConnected env r (Some k) w') = Awaits (nextPromise w')
     \<and> pendingConnections (managers (fst (ensureConnected env r (Some k) w')) r) k
         = Some (nextPromise w')
     \<and> (\<forall>dsn. directRoute env source dsn
          \<longrightarrow> connectCalls (fst (ensureConnected env r (Some k) w'))
                = connectCalls w @ [(nextInstance w, src_id source, dsn)])
     \<and> (\<forall>connector. att_stage a = AwaitConnect connector
          \<longrightarrow> pendingConnections
                (managers (fst (resumeAttempt h (connectSettled h (Inr ()) w))) r) k = None)"
proof -
  let ?wf = "failAttempt env h err w"
  let ?e = "failureOf (att_stage a) err"
  from failAttempt_settles [OF a st, of env err]
  have af: "attempts ?wf h = Some (a\<lparr>att_stage := Settled (Inl ?e)\<rparr>)"
    and mf: "managers ?wf = managers w"
    and cf: "connectCalls ?wf = connectCalls w"
    and nf: "nextInstance ?wf = nextInstance w"
    by simp_all
  from res af am ak
  have w': "w' = (updateManager r
                    (\<lambda>m. m\<lparr>pendingConnections := (pendingConnections m)(k := None)\<rparr>) ?wf)
                 \<lparr>attempts := (attempts ?wf)(h := None)\<rparr>"
    and out: "out = Some (Inl ?e)"
    by (simp_all add: resumeAttempt_def Let_def updateManager_fields)
  have m': "managers w' r
              = (managers w r)\<lparr>pendingConnections := (pendingConnections (managers w r))(k := None)\<rparr>"
    by (simp add: w' updateManager_fields mf)
  have p': "pendingConnections (managers w' r) k = None"
    and l': "lazySources (managers w' r) k = Some source"
    and c': "connectors (managers w' r) k = None"
    by (simp_all add: m' l c)
  have a': "attempts w' h = None" by (simp add: w' updateManager_fields)
  have cc': "connectCalls w' = connectCalls w" and ni': "nextInstance w' = nextInstance w"
    by (simp_all add: w' updateManager_fields cf nf)
  obtain ws s where s: "connectSource_start env source w' = (ws, s)"
    by (cases "connectSource_start env source w'") auto
  note fresh = ensureConnected_fresh [OF k c' l' p' s]
  have r3: "snd (ensureConnected env r (Some k) w') = Awaits (nextPromise w')"
    by (simp add: fresh)
  have p3: "pendingConnections (managers (fst (ensureConnected env r (Some k) w')) r) k
              = Some (nextPromise w')"
    by (simp add: fresh updateManager_fields)
  have d3: "connectCalls (fst (ensureConnected env r (Some k) w'))
              = connectCalls w @ [(nextInstance w, src_id source, dsn)]"
    if d: "directRoute env source dsn" for dsn
  proof -
    from start_direct [OF d, of w'] s
    have "ws = w'\<lparr>nextInstance := Suc (nextInstance w'),
                  connectCalls := connectCalls w' @ [(nextInstance w', src_id source, dsn)]\<rparr>"
      by simp
    then show ?thesis by (simp add: fresh updateManager_fields cc' ni')
  qed
  have ok: "pendingConnections
              (managers (fst (resumeAttempt h (connectSettled h (Inr ()) w))) r) k = None"
    if "att_stage a = AwaitConnect connector" for connector
    using that a am ak
    by (simp add: resumeAttempt_def connectSettled_def Let_def updateManager_fields)
  from out p' l' c' a' cc' r3 p3 d3 ok show ?thesis by blast
qed

theorem failed_attempt_stays_lazy_witness:
  "snd (resumeAttempt 0 (failAttempt demoEnv 0 ''refused'' demoPending)) = Some (Inl ''refused'')
   \<and> pendingConnections
        (managers (fst (resumeAttempt 0 (failAttempt demoEnv 0 ''refused'' demoPending))) 0) ''ts''
       = None
   \<and> lazySources
        (managers (fst (resumeAttempt 0 (failAttempt demoEnv 0 ''refused'' demoPending))) 0) ''ts''
       = Some demoSource
   \<and> connectors
        (managers (fst (resumeAttempt 0 (failAttempt demoEnv 0 ''refused'' demoPending))) 0) ''ts''
       = None
   \<and> snd (ensureConnected demoEnv 0 (Some ''ts'')
             (fst (resumeAttempt 0 (failAttempt demoEnv 0 ''refused'' demoPending))))
       = Awaits 1"
proof -
  define w' out where "w' = fst (resumeAttempt 0 (failAttempt demoEnv 0 ''refused'' demoPending))"
    and "out = snd (resumeAttempt 0 (failAttempt demoEnv 0 ''refused'' demoPending))"
  have res: "resumeAttempt 0 (failAttempt demoEnv 0 ''refused'' demoPending) = (w', out)"
    by (simp add: w'_def out_def)
  have k: "''ts'' \<noteq> []" by simp
  let ?a = "\<lparr>att_manager = 0, att_sourceId = ''ts'', att_source = demoSource,
             att_stage = AwaitConnect 0\<rparr>"
  have am: "att_manager ?a = 0" and ak: "att_sourceId ?a = ''ts''"
    and st: "att_stage ?a \<noteq> Settled (Inr ())"
    by simp_all
  note T = failed_attempt_stays_lazy
             [OF k demoPending_fields(1) am ak st demoPending_fields(3) demoPending_fields(2)
                 demoPending_fields(4) res]
  have np: "nextPromise w' = 1"
    by (simp add: w'_def resumeAttempt_def failAttempt_def connectSettled_def
        demoPending_fields Let_def updateManager_fields)
  from T np show ?thesis
    by (simp add: w'_def [symmetric] out_def [symmetric] failureOf_def)
qed

section \<open>Connector manager: the singleton\<close>

lemma ensureConnected_instance:
  "managerInstance (fst (ensureConnected env r sourceId w)) = managerInstance w"
  by (auto simp: ensureConnected_def Let_def updateManager_fields
      split: option.splits prod.splits dest: connectSource_start_frame)

lemma step_instance:
  assumes "managerInstance w = Some r"
  shows "managerInstance (step env w ev) = Some r"
proof (cases ev)
  case Construct
  with assms show ?thesis by (simp add: newConnectorManager_def Let_def)
next
  case (RegisterLazy r' source)
  with assms show ?thesis
    by (simp add: registerLazySource_def updateManager_fields split: sum.splits)
next
  case (EnsureConnected r' sourceId)
  with assms show ?thesis by (simp add: ensureConnected_instance)
next
  case (StaticEnsureConnected sourceId)
  with assms show ?thesis by (simp add: static_ensureConnected_def ensureConnected_instance)
next
  case (TunnelSettled h outcome)
  with assms show ?thesis
    by (auto simp: tunnelSettled_def Let_def updateManager_fields
        split: option.splits stage.splits sum.splits prod.splits
        dest!: connectSource_connect_frame)
next
  case (ConnectSettled h outcome)
  with assms show ?thesis
    by (auto simp: connectSettled_def Let_def updateManager_fields
        split: option.splits stage.splits sum.splits)
next
  case (ResumeAttempt h)
  with assms show ?thesis
    by (auto simp: resumeAttempt_def Let_def updateManager_fields
        split: option.splits stage.splits sum.splits)
next
  case (DisconnectFinish r')
  with assms show ?thesis by (simp add: disconnectFinish_def updateManager_fields)
qed

lemma run_instance:
  "managerInstance w = Some r \<Longrightarrow> managerInstance (run env w evs) = Some r"
  unfolding run_def
  by (induction evs arbitrary: w) (simp_all add: step_instance)

text \<open>
  C10. The first manager constructed while \<^verbatim>\<open>managerInstance\<close> is unset becomes the
  singleton, and it stays the singleton whatever happens afterwards, further
  constructions included; the static methods are the methods of that first manager.
\<close>

theorem singleton_is_first_manager:
  assumes "managerInstance w = None" and "newConnectorManager w = (w0, first)"
  shows "managerInstance w0 = Some first
     \<and> managerInstance (run env w0 evs) = Some first
     \<and> static_ensureConnected env sourceId (run env w0 evs)
         = ensureConnected env first sourceId (run env w0 evs)
     \<and> getCurrentConnector sourceId (run env w0 evs) = getConnector first sourceId (run env w0 evs)
     \<and> static_getSourceConfig sourceId (run env w0 evs)
         = Inr (getSourceConfig first sourceId (run env w0 evs))
     \<and> getAvailableSourceIds (run env w0 evs) = Inr (getSourceIds first (run env w0 evs))"
proof -
  from assms have i0: "managerInstance w0 = Some first"
    by (auto simp: newConnectorManager_def Let_def)
  then have "managerInstance (run env w0 evs) = Some first" by (rule run_instance)
  with i0 show ?thesis
    by (simp add: static_ensureConnected_def getCurrentConnector_def static_getSourceConfig_def
        getAvailableSourceIds_def)
qed

theorem singleton_is_first_manager_witness:
  "snd (newConnectorManager initialWorld) = 0
   \<and> managerInstance
        (run demoEnv (fst (newConnectorManager initialWorld))
           [Construct, RegisterLazy 1 demoSource, Construct, EnsureConnected 1 (Some ''ts'')])
       = Some 0
   \<and> getAvailableSourceIds
        (run demoEnv (fst (newConnectorManager initialWorld))
           [Construct, RegisterLazy 1 demoSource, Construct, EnsureConnected 1 (Some ''ts'')])
       = Inr []"
proof -
  have n: "managerInstance initialWorld = None" by (simp add: initialWorld_def)
  have c: "newConnectorManager initialWorld = (fst (newConnectorManager initialWorld), 0)"
    by (simp add: newConnectorManager_def initialWorld_def Let_def)
  have ids: "getSourceIds 0
               (run demoEnv (fst (newConnectorManager initialWorld))
                  [Construct, RegisterLazy 1 demoSource, Construct, EnsureConnected 1 (Some ''ts'')])
             = []"
    by (simp add: run_def getSourceIds_def newConnectorManager_def initialWorld_def Let_def
        registerLazySource_def demoEnv_def demoSource_def updateManager_def emptyManager_def
        ensureConnected_def effectiveId_def truthy_def connectSource_start_def
        connectSource_connect_def getConnectorForDSN_def)
  from singleton_is_first_manager [OF n c, of demoEnv
      "[Construct, RegisterLazy 1 demoSource, Construct, EnsureConnected 1 (Some ''ts'')]"]
    ids c
  show ?thesis by (metis snd_conv)
qed

end
